theory Spec2Isabelle
  imports Main
begin

chapter \<open>The model\<close>

section \<open>Values of the Terraform plugin framework\<close>

text \<open>
  The provider stores every attribute in a framework value. A \<open>types.String\<close> is null,
  unknown or a known Go string; the zero value of the Go struct is the null string.
  A \<open>types.Set\<close> of strings is modelled by the list of its elements, as \<open>Elements()\<close>
  and \<open>ElementsAs\<close> return them (a null set has none). The schema of the access resources
  declares every set with \<open>ElementType: types.StringType\<close>, so an element is a Go string
  and \<open>source.Equal(target)\<close> is equality of strings; reading such a set into a
  \<open>[]string\<close> adds no diagnostics, and so does \<open>basetypes.NewSetValue\<close> on elements of
  the set's own type. \<open>basetypes.NewSetValueFrom\<close> validates the set it builds and is
  modelled below: it rejects a list that holds a string twice.
\<close>

datatype tf_string = StringNull | StringUnknown | StringValue string

text \<open>
  \<open>diag.Diagnostics\<close>: a list of diagnostics, each an error or a warning with a summary
  and a detail. \<open>Append\<close> of the framework leaves out a diagnostic the list already
  holds, and \<open>AddError\<close> appends one error diagnostic the same way.
\<close>

datatype diagnostic = ErrorDiagnostic string string | WarningDiagnostic string string

fun isErrorDiagnostic :: "diagnostic \<Rightarrow> bool" where
  "isErrorDiagnostic (ErrorDiagnostic s d) = True"
| "isErrorDiagnostic (WarningDiagnostic s d) = False"

definition HasError :: "diagnostic list \<Rightarrow> bool" where
  "HasError ds = list_ex isErrorDiagnostic ds"

fun diags_Append :: "diagnostic list \<Rightarrow> diagnostic list \<Rightarrow> diagnostic list" where
  "diags_Append ds [] = ds"
| "diags_Append ds (d # rest) = diags_Append (if d \<in> set ds then ds else ds @ [d]) rest"

definition AddError :: "diagnostic list \<Rightarrow> string \<Rightarrow> string \<Rightarrow> diagnostic list" where
  "AddError ds summary detail = diags_Append ds [ErrorDiagnostic summary detail]"

section \<open>Relationship tuples and the access model\<close>

text \<open>\<open>params.RelationshipTuple\<close> of the JIMM API: three strings.\<close>

record RelationshipTuple =
  Object :: string
  Relation :: string
  TargetObject :: string

text \<open>
  \<open>genericJAASAccessModel\<close> of \<open>resource_access_generic_uuid.go\<close>: the three subject sets,
  the access level and the identifier the testing framework requires.
\<close>

record genericJAASAccessModel =
  Users :: "string list"
  ServiceAccounts :: "string list"
  Groups :: "string list"
  Access :: tf_string
  ID :: tf_string

text \<open>The zero value of the Go struct: no elements, null strings.\<close>

definition zeroModel :: genericJAASAccessModel where
  "zeroModel = \<lparr>Users = [], ServiceAccounts = [], Groups = [],
     Access = StringNull, ID = StringNull\<rparr>"

section \<open>The difference of two plans\<close>

text \<open>
  \<open>diffSet(current, desired, diag)\<close>: the outer loop runs over the elements of
  \<open>current\<close>, the inner loop sets \<open>found\<close> when an element of \<open>desired\<close> is equal, and an
  element that was not found is appended to \<open>diff\<close>. The result is the set built from
  \<open>diff\<close>; \<open>diag\<close> is left as it is.
\<close>

fun diffSet_found :: "string \<Rightarrow> string list \<Rightarrow> bool \<Rightarrow> bool" where
  "diffSet_found source [] found = found"
| "diffSet_found source (target # rest) found =
     diffSet_found source rest (if source = target then True else found)"

fun diffSet_loop :: "string list \<Rightarrow> string list \<Rightarrow> string list \<Rightarrow> string list" where
  "diffSet_loop [] desired diff = diff"
| "diffSet_loop (source # rest) desired diff =
     diffSet_loop rest desired
       (if \<not> diffSet_found source desired False then diff @ [source] else diff)"

definition diffSet :: "string list \<Rightarrow> string list \<Rightarrow> string list" where
  "diffSet current desired = diffSet_loop current desired []"

text \<open>
  \<open>diffPlans(plan, state, diag)\<close> returns \<open>(toAdd, toRemove)\<close>. Both start as zero values
  and only their three sets are assigned, so their \<open>Access\<close> and \<open>ID\<close> stay null.
\<close>

definition diffPlans ::
  "genericJAASAccessModel \<Rightarrow> genericJAASAccessModel \<Rightarrow>
   genericJAASAccessModel \<times> genericJAASAccessModel" where
  "diffPlans plan state =
     (let newUsers = diffSet (Users plan) (Users state);
          newGroups = diffSet (Groups plan) (Groups state);
          newServiceAccounts = diffSet (ServiceAccounts plan) (ServiceAccounts state);
          toAdd = zeroModel\<lparr>Users := newUsers, Groups := newGroups,
                    ServiceAccounts := newServiceAccounts\<rparr>;
          removedUsers = diffSet (Users state) (Users plan);
          removedGroups = diffSet (Groups state) (Groups plan);
          removedServiceAccounts = diffSet (ServiceAccounts state) (ServiceAccounts plan);
          toRemove = zeroModel\<lparr>Users := removedUsers, Groups := removedGroups,
                    ServiceAccounts := removedServiceAccounts\<rparr>
      in (toAdd, toRemove))"

section \<open>Libraries the provider calls\<close>

text \<open>
  The tag libraries (\<open>juju/names\<close>, \<open>jimm/pkg/names\<close>), the framework's rendering of a
  string value and one helper of the provider that is not among the sources are
  parameters of the model:
  \<^item> \<open>String_of\<close> is \<open>types.String.String()\<close>, used for \<open>plan.Access.String()\<close>;
  \<^item> \<open>NewUserTag\<close> is \<open>names.NewUserTag(s).String()\<close>, which panics on a name that is
    not a user name (\<open>None\<close>);
  \<^item> \<open>ParseTag\<close> is \<open>jimmNames.ParseTag\<close>: the text of the error, or a tag with its
    \<open>Kind()\<close> and \<open>Id()\<close>;
  \<^item> \<open>IsValidServiceAccountId\<close> is the service-account pattern of \<open>jimm/pkg/names\<close>;
  \<^item> \<open>clientNotConfigured resource method\<close> is the diagnostic that
    \<open>addClientNotConfiguredError\<close> adds;
  \<^item> \<open>State_Set\<close> gives the diagnostics of \<open>resp.State.Set(ctx, &plan)\<close>;
  \<^item> \<open>duplicateDetail v\<close> is the detail of the framework's diagnostic for a set that
    holds the value \<open>v\<close> twice.
\<close>

record Tag =
  Kind :: string
  Id :: string

record deps =
  String_of :: "tf_string \<Rightarrow> string"
  NewUserTag :: "string \<Rightarrow> string option"
  ParseTag :: "string \<Rightarrow> string + Tag"
  IsValidServiceAccountId :: "string \<Rightarrow> bool"
  clientNotConfigured :: "string \<Rightarrow> string \<Rightarrow> diagnostic"
  State_Set :: "genericJAASAccessModel \<Rightarrow> diagnostic list"
  duplicateDetail :: "string \<Rightarrow> string"

definition UserTagKind :: string where
  "UserTagKind = ''user''"

definition GroupTagKind :: string where
  "GroupTagKind = ''group''"

section \<open>Plans and tuples\<close>

text \<open>
  \<open>makeTuples(baseTuple, items, idToTag)\<close> copies the base tuple for every item and
  overwrites its \<open>Object\<close> with the item's tag. A panic of \<open>idToTag\<close> ends it (\<open>None\<close>).
\<close>

fun makeTuples ::
  "RelationshipTuple \<Rightarrow> string list \<Rightarrow> (string \<Rightarrow> string option) \<Rightarrow>
   RelationshipTuple list option" where
  "makeTuples baseTuple [] idToTag = Some []"
| "makeTuples baseTuple (item # items) idToTag =
     (case idToTag item of
        None \<Rightarrow> None
      | Some tg \<Rightarrow>
          (case makeTuples baseTuple items idToTag of
             None \<Rightarrow> None
           | Some tuples \<Rightarrow> Some (baseTuple\<lparr>Object := tg\<rparr> # tuples)))"

text \<open>
  \<open>planToTuples(ctx, targetTag, plan, diag)\<close>. The base tuple is built with
  \<open>Object: targetTag\<close> and \<open>Relation: plan.Access.String()\<close>; its \<open>TargetObject\<close> is
  not assigned and stays the empty string. Users, groups and service accounts are
  appended in this order, service accounts tagged as users.
\<close>

definition groupNameToTagf :: "string \<Rightarrow> string option" where
  "groupNameToTagf s = Some (''group-'' @ s)"

definition planToTuples ::
  "deps \<Rightarrow> string \<Rightarrow> genericJAASAccessModel \<Rightarrow> diagnostic list \<Rightarrow>
   RelationshipTuple list option" where
  "planToTuples X targetTag plan diag =
     (if HasError diag then Some []
      else
        let baseTuple = \<lparr>Object = targetTag, Relation = String_of X (Access plan),
                           TargetObject = []\<rparr>
        in (case makeTuples baseTuple (Users plan) (NewUserTag X) of
              None \<Rightarrow> None
            | Some us \<Rightarrow>
                (case makeTuples baseTuple (Groups plan) groupNameToTagf of
                   None \<Rightarrow> None
                 | Some gs \<Rightarrow>
                     (case makeTuples baseTuple (ServiceAccounts plan) (NewUserTag X) of
                        None \<Rightarrow> None
                      | Some ss \<Rightarrow> Some (us @ gs @ ss)))))"

text \<open>
  \<open>tuplesToPlan(ctx, tuples, diag)\<close>. A tuple whose object does not parse adds an error
  diagnostic and the loop continues with the next tuple. A user tag goes to the service
  accounts when its id is a valid service account id and to the users otherwise, a
  group tag goes to the groups, and the \<open>switch\<close> has no case for another kind.
\<close>

fun tuplesToPlan_loop ::
  "deps \<Rightarrow> RelationshipTuple list \<Rightarrow>
   string list \<times> string list \<times> string list \<times> diagnostic list \<Rightarrow>
   string list \<times> string list \<times> string list \<times> diagnostic list" where
  "tuplesToPlan_loop X [] acc = acc"
| "tuplesToPlan_loop X (tuple # rest) (users, groups, serviceAccounts, diag) =
     (case ParseTag X (Object tuple) of
        Inl err \<Rightarrow>
          tuplesToPlan_loop X rest
            (users, groups, serviceAccounts,
             AddError diag ''failed to parse relation tag''
               (''error parsing '' @ Object tuple @ '':'' @ err))
      | Inr tg \<Rightarrow>
          if Kind tg = UserTagKind then
            (if IsValidServiceAccountId X (Id tg)
             then tuplesToPlan_loop X rest (users, groups, serviceAccounts @ [Id tg], diag)
             else tuplesToPlan_loop X rest (users @ [Id tg], groups, serviceAccounts, diag))
          else if Kind tg = GroupTagKind then
            tuplesToPlan_loop X rest (users, groups @ [Id tg], serviceAccounts, diag)
          else tuplesToPlan_loop X rest (users, groups, serviceAccounts, diag))"

text \<open>
  \<open>basetypes.NewSetValueFrom(ctx, types.StringType, elements)\<close> validates the set: for
  every element, each later element equal to it adds the error \<open>Duplicate Set Element\<close>
  (\<open>Append\<close> leaves out a diagnostic that is there already). With an error the result
  is the unknown set, which has no elements.
\<close>

fun duplicates :: "string list \<Rightarrow> string list" where
  "duplicates [] = []"
| "duplicates (x # xs) = filter (\<lambda>y. y = x) xs @ duplicates xs"

definition NewSetValueFrom :: "deps \<Rightarrow> string list \<Rightarrow> string list \<times> diagnostic list" where
  "NewSetValueFrom X elements =
     (let diags = diags_Append []
            (map (\<lambda>v. ErrorDiagnostic ''Duplicate Set Element'' (duplicateDetail X v))
               (duplicates elements))
      in if HasError diags then ([], diags) else (elements, diags))"

text \<open>
  After the loop the three sets are built with \<open>NewSetValueFrom\<close>, users first, then
  groups, then service accounts, and the diagnostics of each are appended.
\<close>

definition tuplesToPlan ::
  "deps \<Rightarrow> RelationshipTuple list \<Rightarrow> diagnostic list \<Rightarrow>
   genericJAASAccessModel \<times> diagnostic list" where
  "tuplesToPlan X tuples diag =
     (case tuplesToPlan_loop X tuples ([], [], [], diag) of
        (users, groups, serviceAccounts, diag0) \<Rightarrow>
          (case NewSetValueFrom X users of
             (userSet, errDiag1) \<Rightarrow>
               (case NewSetValueFrom X groups of
                  (groupSet, errDiag2) \<Rightarrow>
                    (case NewSetValueFrom X serviceAccounts of
                       (serviceAccountSet, errDiag3) \<Rightarrow>
                         (zeroModel\<lparr>Users := userSet, Groups := groupSet,
                                    ServiceAccounts := serviceAccountSet\<rparr>,
                          diags_Append
                            (diags_Append (diags_Append diag0 errDiag1) errDiag2)
                            errDiag3)))))"

section \<open>The controller\<close>

text \<open>
  The controller is the environment of the client. Every request the client sends is
  recorded as an event, and the controller answers a request as a function of the
  events before it and of the request, so that its answers may change from one call to
  the next. An error is the text of the Go error.
\<close>

record ListRelationshipTuplesRequest =
  ReqTuple :: RelationshipTuple
  ReqContinuationToken :: string

record ListRelationshipTuplesResponse =
  Tuples :: "RelationshipTuple list"
  Errors :: "string list"
  ContinuationToken :: string

record ModelSummary =
  SummaryName :: string
  SummaryOwner :: string
  SummaryUUID :: string
  SummaryType :: string

datatype event =
    CallConnect string
  | CallAddRelation "RelationshipTuple list"
  | CallRemoveRelation "RelationshipTuple list"
  | CallListRelationshipTuples ListRelationshipTuplesRequest
  | CallListControllers
  | CallListModelSummaries

record controller =
  Connect :: "event list \<Rightarrow> string \<Rightarrow> string option"
  AddRelation :: "event list \<Rightarrow> RelationshipTuple list \<Rightarrow> string option"
  RemoveRelation :: "event list \<Rightarrow> RelationshipTuple list \<Rightarrow> string option"
  ListRelationshipTuples ::
    "event list \<Rightarrow> ListRelationshipTuplesRequest \<Rightarrow> string + ListRelationshipTuplesResponse"
  ListControllers :: "event list \<Rightarrow> string option"
  ListModelSummaries :: "event list \<Rightarrow> string + ModelSummary list"

section \<open>The shared client\<close>

text \<open>
  \<open>sharedClient\<close> of \<open>client.go\<close>: the model cache, the \<open>sync.Once\<close> of the JAAS check
  (true once its function has run) and the memoized flag. Package \<open>modelcache\<close> is not
  among the sources, so the cache is a type parameter and its operations are
  parameters: \<open>Lookup\<close> returns the cached model or the text of its error, \<open>FillCache\<close>
  stores the summaries.
\<close>

record jujuModel =
  Name :: string
  Owner :: string
  UUID :: string
  ModelType :: string

record 'c modelcache =
  NewModelCache :: 'c
  Lookup :: "'c \<Rightarrow> string \<Rightarrow> string + jujuModel"
  FillCache :: "'c \<Rightarrow> ModelSummary list \<Rightarrow> 'c"

record ControllerConfiguration =
  ControllerAddresses :: "string list"
  Username :: string
  Password :: string
  CACert :: string
  ClientID :: string
  ClientSecret :: string

record 'c sharedClient =
  controllerConfig :: ControllerConfiguration
  modelCache :: 'c
  checkJAASOnce :: bool
  isJAAS :: bool

text \<open>
  \<open>GetConnection(nil)\<close>: without a model name the model UUID stays empty, and the
  connector dials the controller; the result is the error, if any.
\<close>

definition GetConnection_nil :: "controller \<Rightarrow> event list \<Rightarrow> string option \<times> event list" where
  "GetConnection_nil C h = (Connect C h [], h @ [CallConnect []])"

text \<open>
  \<open>fillModelCache\<close>: a connection, the model summaries of the controller, and
  \<open>FillCache\<close>; an error of either call is returned and the cache is left as it is.
\<close>

definition fillModelCache ::
  "controller \<Rightarrow> 'c modelcache \<Rightarrow> 'c sharedClient \<Rightarrow> event list \<Rightarrow>
   string option \<times> 'c sharedClient \<times> event list" where
  "fillModelCache C M sc h =
     (case GetConnection_nil C h of
        (Some err, h1) \<Rightarrow> (Some err, sc, h1)
      | (None, h1) \<Rightarrow>
          (case ListModelSummaries C h1 of
             Inl err \<Rightarrow> (Some err, sc, h1 @ [CallListModelSummaries])
           | Inr modelSummaries \<Rightarrow>
               (None, sc\<lparr>modelCache := FillCache M (modelCache sc) modelSummaries\<rparr>,
                h1 @ [CallListModelSummaries])))"

text \<open>
  \<open>ModelUUID(modelName)\<close>: the cached UUID when the lookup succeeds; otherwise
  \<open>fillModelCache\<close>, whose error is returned, and a second lookup, whose error is
  returned.
\<close>

definition ModelUUID ::
  "controller \<Rightarrow> 'c modelcache \<Rightarrow> 'c sharedClient \<Rightarrow> event list \<Rightarrow> string \<Rightarrow>
   (string + string) \<times> 'c sharedClient \<times> event list" where
  "ModelUUID C M sc h modelName =
     (case Lookup M (modelCache sc) modelName of
        Inr model \<Rightarrow> (Inr (UUID model), sc, h)
      | Inl _ \<Rightarrow>
          (case fillModelCache C M sc h of
             (Some err, sc1, h1) \<Rightarrow> (Inl err, sc1, h1)
           | (None, sc1, h1) \<Rightarrow>
               (case Lookup M (modelCache sc1) modelName of
                  Inl err \<Rightarrow> (Inl err, sc1, h1)
                | Inr model \<Rightarrow> (Inr (UUID model), sc1, h1))))"

text \<open>
  \<open>GetConnection(modelName)\<close>: with a model name the UUID is resolved first and its
  error returned; then the connector dials with that UUID.
\<close>

definition GetConnection ::
  "controller \<Rightarrow> 'c modelcache \<Rightarrow> 'c sharedClient \<Rightarrow> event list \<Rightarrow> string option \<Rightarrow>
   string option \<times> 'c sharedClient \<times> event list" where
  "GetConnection C M sc h modelName =
     (case modelName of
        None \<Rightarrow> (case GetConnection_nil C h of (r, h1) \<Rightarrow> (r, sc, h1))
      | Some n \<Rightarrow>
          (case ModelUUID C M sc h n of
             (Inl err, sc1, h1) \<Rightarrow> (Some err, sc1, h1)
           | (Inr modelUUID, sc1, h1) \<Rightarrow>
               (Connect C h1 modelUUID, sc1, h1 @ [CallConnect modelUUID])))"

text \<open>
  \<open>IsJAAS(defaultVal)\<close>. The function handed to \<open>checkJAASOnce.Do\<close> stores the default,
  returns when no connection is made, and stores true when \<open>ListControllers\<close> succeeds.
  \<open>Do\<close> runs it only when it has not run before; the method returns the stored flag and
  no error.
\<close>

definition IsJAAS ::
  "controller \<Rightarrow> 'c sharedClient \<Rightarrow> event list \<Rightarrow> bool \<Rightarrow> bool \<times> 'c sharedClient \<times> event list" where
  "IsJAAS C sc h defaultVal =
     (if checkJAASOnce sc then (isJAAS sc, sc, h)
      else
        let sc1 = sc\<lparr>isJAAS := defaultVal\<rparr> in
        (case GetConnection_nil C h of
           (Some err, h1) \<Rightarrow> (isJAAS sc1, sc1\<lparr>checkJAASOnce := True\<rparr>, h1)
         | (None, h1) \<Rightarrow>
             (case ListControllers C h1 of
                None \<Rightarrow> (True, sc1\<lparr>isJAAS := True, checkJAASOnce := True\<rparr>,
                         h1 @ [CallListControllers])
              | Some err \<Rightarrow> (isJAAS sc1, sc1\<lparr>checkJAASOnce := True\<rparr>,
                            h1 @ [CallListControllers]))))"

text \<open>
  \<open>NewClient\<close>: a fresh shared client, and the default of the JAAS check, which is true
  when the configuration has a client id and a client secret. \<open>Client.IsJAAS()\<close> calls
  \<open>IsJAAS\<close> of the shared client with that default.
\<close>

definition defaultJAASCheck :: "ControllerConfiguration \<Rightarrow> bool" where
  "defaultJAASCheck config = (ClientID config \<noteq> [] \<and> ClientSecret config \<noteq> [])"

definition NewClient :: "'c modelcache \<Rightarrow> ControllerConfiguration \<Rightarrow> 'c sharedClient" where
  "NewClient M config =
     \<lparr>controllerConfig = config, modelCache = NewModelCache M,
      checkJAASOnce = False, isJAAS = False\<rparr>"

definition Client_IsJAAS ::
  "controller \<Rightarrow> 'c sharedClient \<Rightarrow> event list \<Rightarrow> bool \<times> 'c sharedClient \<times> event list" where
  "Client_IsJAAS C sc h = IsJAAS C sc h (defaultJAASCheck (controllerConfig sc))"

section \<open>The JAAS client\<close>

text \<open>
  \<open>AddTuples\<close> and \<open>DeleteTuples\<close>: a connection, whose error is returned, and one
  request with the tuples.
\<close>

definition AddTuples ::
  "controller \<Rightarrow> event list \<Rightarrow> RelationshipTuple list \<Rightarrow> string option \<times> event list" where
  "AddTuples C h tuples =
     (case GetConnection_nil C h of
        (Some err, h1) \<Rightarrow> (Some err, h1)
      | (None, h1) \<Rightarrow> (AddRelation C h1 tuples, h1 @ [CallAddRelation tuples]))"

definition DeleteTuples ::
  "controller \<Rightarrow> event list \<Rightarrow> RelationshipTuple list \<Rightarrow> string option \<times> event list" where
  "DeleteTuples C h tuples =
     (case GetConnection_nil C h of
        (Some err, h1) \<Rightarrow> (Some err, h1)
      | (None, h1) \<Rightarrow> (RemoveRelation C h1 tuples, h1 @ [CallRemoveRelation tuples]))"

text \<open>
  The loop of \<open>ReadTuples\<close>: a request with the current token; an error of the call or a
  response with errors ends it with the (first) error; otherwise the tuples of the
  response are appended, the loop returns them all when the token of the response is
  empty and goes on with that token otherwise. The loop has no bound: on a controller
  that never answers with an empty token it does not return (\<open>None\<close>).
\<close>

partial_function (option) ReadTuples_loop ::
  "controller \<Rightarrow> event list \<Rightarrow> ListRelationshipTuplesRequest \<Rightarrow> RelationshipTuple list \<Rightarrow>
   ((string + RelationshipTuple list) \<times> event list) option" where
  "ReadTuples_loop C h req tuples =
     (case ListRelationshipTuples C h req of
        Inl err \<Rightarrow> Some (Inl err, h @ [CallListRelationshipTuples req])
      | Inr response \<Rightarrow>
          if Errors response \<noteq> [] then
            Some (Inl (hd (Errors response)), h @ [CallListRelationshipTuples req])
          else if ContinuationToken response = [] then
            Some (Inr (tuples @ Tuples response), h @ [CallListRelationshipTuples req])
          else
            ReadTuples_loop C (h @ [CallListRelationshipTuples req])
              (req\<lparr>ReqContinuationToken := ContinuationToken response\<rparr>)
              (tuples @ Tuples response))"

declare ReadTuples_loop.simps [code]

definition ReadTuples ::
  "controller \<Rightarrow> event list \<Rightarrow> RelationshipTuple \<Rightarrow>
   ((string + RelationshipTuple list) \<times> event list) option" where
  "ReadTuples C h tuple =
     (case GetConnection_nil C h of
        (Some err, h1) \<Rightarrow> Some (Inl err, h1)
      | (None, h1) \<Rightarrow>
          ReadTuples_loop C h1 \<lparr>ReqTuple = tuple, ReqContinuationToken = []\<rparr> [])"

section \<open>The generic access resource\<close>

text \<open>
  A \<open>Getter\<close> is the plan or the state of a request: \<open>Get\<close> into a
  \<open>genericJAASAccessModel\<close> gives diagnostics and the model, and \<open>Get\<close> into the struct of
  the target gives diagnostics and the attribute that names the target. The resource
  holds the client (nil until the provider is configured) and the \<open>targetInfo\<close>, whose
  \<open>Identity\<close> appends to the diagnostics and returns the tag of the target.
\<close>

record Getter =
  Get_diags :: "diagnostic list"
  Get_model :: genericJAASAccessModel
  Get_target_diags :: "diagnostic list"
  Get_target :: tf_string

record genericJAASAccessResource =
  client :: "controller option"
  targetInfo :: "Getter \<Rightarrow> diagnostic list \<Rightarrow> string \<times> diagnostic list"

text \<open>
  The two identities of the sources: \<open>modelInfo.Identity\<close> renders the model UUID and
  makes a model tag of it, \<open>jaasAccessResourceByName.Identity\<close> joins the tag of the
  resource and the rendered name.
\<close>

definition modelInfo_Identity :: "deps \<Rightarrow> Getter \<Rightarrow> diagnostic list \<Rightarrow> string \<times> diagnostic list" where
  "modelInfo_Identity X plan diag =
     (''model-'' @ String_of X (Get_target plan), diags_Append diag (Get_target_diags plan))"

definition jaasAccessResourceByName_Identity ::
  "deps \<Rightarrow> string \<Rightarrow> Getter \<Rightarrow> diagnostic list \<Rightarrow> string \<times> diagnostic list" where
  "jaasAccessResourceByName_Identity X tg plan diag =
     (tg @ ''-'' @ String_of X (Get_target plan), diags_Append diag (Get_target_diags plan))"

text \<open>
  What an operation leaves in its response: the diagnostics, the model handed to
  \<open>resp.State.Set\<close> (if it was called), and whether the operation ended in a panic.
\<close>

record Response =
  Diagnostics :: "diagnostic list"
  State :: "genericJAASAccessModel option"
  Panicked :: bool

text \<open>\<open>genericJAASAccessResource.Create\<close>.\<close>

definition Create ::
  "genericJAASAccessResource \<Rightarrow> deps \<Rightarrow> Getter \<Rightarrow> Response \<Rightarrow> event list \<Rightarrow>
   Response \<times> event list" where
  "Create a X req_Plan resp h =
     (case client a of
        None \<Rightarrow>
          (resp\<lparr>Diagnostics := diags_Append (Diagnostics resp)
                    [clientNotConfigured X ''access model'' ''create'']\<rparr>, h)
      | Some C \<Rightarrow>
          let d1 = diags_Append (Diagnostics resp) (Get_diags req_Plan);
              plan = Get_model req_Plan
          in if HasError d1 then (resp\<lparr>Diagnostics := d1\<rparr>, h)
             else
               (case targetInfo a req_Plan d1 of
                  (targetID, d2) \<Rightarrow>
                    if HasError d2 then (resp\<lparr>Diagnostics := d2\<rparr>, h)
                    else
                      (case planToTuples X targetID plan d2 of
                         None \<Rightarrow> (resp\<lparr>Diagnostics := d2, Panicked := True\<rparr>, h)
                       | Some tuples \<Rightarrow>
                           if HasError d2 then (resp\<lparr>Diagnostics := d2\<rparr>, h)
                           else
                             (case AddTuples C h tuples of
                                (Some err, h1) \<Rightarrow>
                                  (resp\<lparr>Diagnostics := AddError d2 ''Client Error''
                                     (''Unable to read add access relationships, got error: ''
                                        @ err)\<rparr>, h1)
                              | (None, h1) \<Rightarrow>
                                  (resp\<lparr>Diagnostics := diags_Append d2 (State_Set X plan),
                                        State := Some plan\<rparr>, h1)))))"

text \<open>
  \<open>genericJAASAccessResource.Read\<close>. The tuple of the query has the target and the
  relation. After \<open>tuplesToPlan\<close> the method returns when the diagnostics hold an error;
  otherwise the three sets of the state are replaced and the state is stored.
\<close>

definition Read ::
  "genericJAASAccessResource \<Rightarrow> deps \<Rightarrow> Getter \<Rightarrow> Response \<Rightarrow> event list \<Rightarrow>
   (Response \<times> event list) option" where
  "Read a X req_State resp h =
     (case client a of
        None \<Rightarrow>
          Some (resp\<lparr>Diagnostics := diags_Append (Diagnostics resp)
                    [clientNotConfigured X ''access model'' ''read'']\<rparr>, h)
      | Some C \<Rightarrow>
          let d1 = diags_Append (Diagnostics resp) (Get_diags req_State);
              plan = Get_model req_State
          in if HasError d1 then Some (resp\<lparr>Diagnostics := d1\<rparr>, h)
             else
               (case targetInfo a req_State d1 of
                  (targetID, d2) \<Rightarrow>
                    if HasError d2 then Some (resp\<lparr>Diagnostics := d2\<rparr>, h)
                    else
                      (case ReadTuples C h
                              \<lparr>Object = [], Relation = String_of X (Access plan),
                               TargetObject = targetID\<rparr> of
                         None \<Rightarrow> None
                       | Some (Inl err, h1) \<Rightarrow>
                           Some (resp\<lparr>Diagnostics := AddError d2 ''Client Error''
                                   (''Unable to read access rules, got error: '' @ err)\<rparr>, h1)
                       | Some (Inr tuples, h1) \<Rightarrow>
                           (case tuplesToPlan X tuples d2 of
                              (newState, d3) \<Rightarrow>
                                if HasError d3 then Some (resp\<lparr>Diagnostics := d3\<rparr>, h1)
                                else
                                  let plan' = plan\<lparr>Users := Users newState,
                                                Groups := Groups newState,
                                                ServiceAccounts := ServiceAccounts newState\<rparr>
                                  in Some (resp\<lparr>Diagnostics :=
                                                    diags_Append d3 (State_Set X plan'),
                                                State := Some plan'\<rparr>, h1)))))"

text \<open>
  \<open>genericJAASAccessResource.Update\<close>: the difference of plan and state, the tuples of
  \<open>toAdd\<close> and \<open>AddTuples\<close>, whose error ends the method; then the tuples of \<open>toRemove\<close>
  and \<open>DeleteTuples\<close>; then the plan is stored.
\<close>

definition Update ::
  "genericJAASAccessResource \<Rightarrow> deps \<Rightarrow> Getter \<Rightarrow> Getter \<Rightarrow> Response \<Rightarrow> event list \<Rightarrow>
   Response \<times> event list" where
  "Update a X req_State req_Plan resp h =
     (case client a of
        None \<Rightarrow>
          (resp\<lparr>Diagnostics := diags_Append (Diagnostics resp)
                    [clientNotConfigured X ''access model'' ''update'']\<rparr>, h)
      | Some C \<Rightarrow>
          let d1 = diags_Append (Diagnostics resp) (Get_diags req_State);
              state = Get_model req_State
          in if HasError d1 then (resp\<lparr>Diagnostics := d1\<rparr>, h)
             else
               let d2 = diags_Append d1 (Get_diags req_Plan);
                   plan = Get_model req_Plan
               in if HasError d2 then (resp\<lparr>Diagnostics := d2\<rparr>, h)
                  else
                    (case diffPlans plan state of
                       (toAdd, toRemove) \<Rightarrow>
                         if HasError d2 then (resp\<lparr>Diagnostics := d2\<rparr>, h)
                         else
                           (case targetInfo a req_State d2 of
                              (targetID, d3) \<Rightarrow>
                                if HasError d3 then (resp\<lparr>Diagnostics := d3\<rparr>, h)
                                else
                                  (case planToTuples X targetID toAdd d3 of
                                     None \<Rightarrow> (resp\<lparr>Diagnostics := d3, Panicked := True\<rparr>, h)
                                   | Some tuples \<Rightarrow>
                                       if HasError d3 then (resp\<lparr>Diagnostics := d3\<rparr>, h)
                                       else
                                         (case AddTuples C h tuples of
                                            (Some err, h1) \<Rightarrow>
                                              (resp\<lparr>Diagnostics := AddError d3 ''Client Error''
                                                 (''Unable to add access rules, got error: ''
                                                    @ err)\<rparr>, h1)
                                          | (None, h1) \<Rightarrow>
                                              (case planToTuples X targetID toRemove d3 of
                                                 None \<Rightarrow>
                                                   (resp\<lparr>Diagnostics := d3,
                                                         Panicked := True\<rparr>, h1)
                                               | Some tuples' \<Rightarrow>
                                                   if HasError d3
                                                   then (resp\<lparr>Diagnostics := d3\<rparr>, h1)
                                                   else
                                                     (case DeleteTuples C h1 tuples' of
                                                        (Some err, h2) \<Rightarrow>
                                                          (resp\<lparr>Diagnostics :=
                                                             AddError d3 ''Client Error''
                                                               (''Unable to remove access rules, got error: ''
                                                                  @ err)\<rparr>, h2)
                                                      | (None, h2) \<Rightarrow>
                                                          (resp\<lparr>Diagnostics :=
                                                             diags_Append d3 (State_Set X plan),
                                                             State := Some plan\<rparr>, h2))))))))"

text \<open>\<open>genericJAASAccessResource.Delete\<close>: the tuples of the state and \<open>DeleteTuples\<close>.\<close>

definition Delete ::
  "genericJAASAccessResource \<Rightarrow> deps \<Rightarrow> Getter \<Rightarrow> Response \<Rightarrow> event list \<Rightarrow>
   Response \<times> event list" where
  "Delete a X req_State resp h =
     (case client a of
        None \<Rightarrow>
          (resp\<lparr>Diagnostics := diags_Append (Diagnostics resp)
                    [clientNotConfigured X ''access model'' ''delete'']\<rparr>, h)
      | Some C \<Rightarrow>
          let d1 = diags_Append (Diagnostics resp) (Get_diags req_State);
              plan = Get_model req_State
          in if HasError d1 then (resp\<lparr>Diagnostics := d1\<rparr>, h)
             else
               (case targetInfo a req_State d1 of
                  (targetID, d2) \<Rightarrow>
                    if HasError d2 then (resp\<lparr>Diagnostics := d2\<rparr>, h)
                    else
                      (case planToTuples X targetID plan d2 of
                         None \<Rightarrow> (resp\<lparr>Diagnostics := d2, Panicked := True\<rparr>, h)
                       | Some tuples \<Rightarrow>
                           if HasError d2 then (resp\<lparr>Diagnostics := d2\<rparr>, h)
                           else
                             (case DeleteTuples C h tuples of
                                (Some err, h1) \<Rightarrow>
                                  (resp\<lparr>Diagnostics := AddError d2 ''Client Error''
                                     (''Unable to delete access rules, got error: '' @ err)\<rparr>,
                                   h1)
                              | (None, h1) \<Rightarrow> (resp\<lparr>Diagnostics := d2\<rparr>, h1)))))"

section \<open>Concurrent callers of the JAAS check\<close>

text \<open>
  Callers of \<open>IsJAAS\<close> that run at the same time are modelled by the steps of the method,
  interleaved in any order. Caller \<open>t\<close> passes the default \<open>defaultVal t\<close>; a caller that
  calls again is another caller. The shared state is the \<open>sync.Once\<close>, the flag
  \<open>sc.isJAAS\<close> and the requests sent so far. \<open>sync.Once.Do\<close> is modelled by its contract:
  the function runs in the first caller only, a caller that arrives while it runs
  waits (it has no step), and \<open>Do\<close> returns in every caller only after the function has
  returned. The program points of a caller are: before \<open>Do\<close>; inside the function before
  \<open>sc.isJAAS = defaultVal\<close>, before \<open>GetConnection\<close>, before \<open>ListControllers\<close>, before
  \<open>sc.isJAAS = true\<close> and at its return; after \<open>Do\<close>, before \<open>return sc.isJAAS\<close>; and
  returned with a value.
\<close>

datatype once = NotRun | Running | Done

datatype pc = Start | SetDefault | Dial | Probe | SetTrue | Finish | ReadFlag | Returned bool

record shared =
  onceState :: once
  flag :: bool
  hist :: "event list"

definition initial :: "shared \<times> (nat \<Rightarrow> pc)" where
  "initial = (\<lparr>onceState = NotRun, flag = False, hist = []\<rparr>, (\<lambda>t. Start))"

inductive step ::
  "controller \<Rightarrow> (nat \<Rightarrow> bool) \<Rightarrow> shared \<times> (nat \<Rightarrow> pc) \<Rightarrow> shared \<times> (nat \<Rightarrow> pc) \<Rightarrow> bool"
  for C :: controller and defaultVal :: "nat \<Rightarrow> bool" where
  enter: "pcs t = Start \<Longrightarrow> onceState s = NotRun \<Longrightarrow>
          step C defaultVal (s, pcs) (s\<lparr>onceState := Running\<rparr>, pcs(t := SetDefault))"
| skip: "pcs t = Start \<Longrightarrow> onceState s = Done \<Longrightarrow>
          step C defaultVal (s, pcs) (s, pcs(t := ReadFlag))"
| set_default: "pcs t = SetDefault \<Longrightarrow>
          step C defaultVal (s, pcs) (s\<lparr>flag := defaultVal t\<rparr>, pcs(t := Dial))"
| dial_error: "pcs t = Dial \<Longrightarrow> Connect C (hist s) [] = Some err \<Longrightarrow>
          step C defaultVal (s, pcs) (s\<lparr>hist := hist s @ [CallConnect []]\<rparr>, pcs(t := Finish))"
| dial_ok: "pcs t = Dial \<Longrightarrow> Connect C (hist s) [] = None \<Longrightarrow>
          step C defaultVal (s, pcs) (s\<lparr>hist := hist s @ [CallConnect []]\<rparr>, pcs(t := Probe))"
| probe_error: "pcs t = Probe \<Longrightarrow> ListControllers C (hist s) = Some err \<Longrightarrow>
          step C defaultVal (s, pcs) (s\<lparr>hist := hist s @ [CallListControllers]\<rparr>, pcs(t := Finish))"
| probe_ok: "pcs t = Probe \<Longrightarrow> ListControllers C (hist s) = None \<Longrightarrow>
          step C defaultVal (s, pcs) (s\<lparr>hist := hist s @ [CallListControllers]\<rparr>, pcs(t := SetTrue))"
| set_true: "pcs t = SetTrue \<Longrightarrow>
          step C defaultVal (s, pcs) (s\<lparr>flag := True\<rparr>, pcs(t := Finish))"
| finish: "pcs t = Finish \<Longrightarrow>
          step C defaultVal (s, pcs) (s\<lparr>onceState := Done\<rparr>, pcs(t := ReadFlag))"
| read_flag: "pcs t = ReadFlag \<Longrightarrow>
          step C defaultVal (s, pcs) (s, pcs(t := Returned (flag s)))"

inductive reachable ::
  "controller \<Rightarrow> (nat \<Rightarrow> bool) \<Rightarrow> shared \<times> (nat \<Rightarrow> pc) \<Rightarrow> bool"
  for C :: controller and defaultVal :: "nat \<Rightarrow> bool" where
  reach_init: "reachable C defaultVal initial"
| reach_step: "reachable C defaultVal st \<Longrightarrow> step C defaultVal st st' \<Longrightarrow> reachable C defaultVal st'"

text \<open>
  The number of capability probes among the requests, and the invariant of the
  reachable states: before the function has run every caller is before \<open>Do\<close>; while it
  runs, one caller is inside it, the requests are those of its program point, and
  every other caller is before \<open>Do\<close>; after it has run, a caller that has returned has
  returned the flag.
\<close>

definition probes :: "event list \<Rightarrow> nat" where
  "probes h = length (filter (\<lambda>e. e = CallListControllers) h)"

fun insideDo :: "pc \<Rightarrow> event list \<Rightarrow> bool" where
  "insideDo SetDefault h = (h = [])"
| "insideDo Dial h = (h = [])"
| "insideDo Probe h = (h = [CallConnect []])"
| "insideDo SetTrue h = (h = [CallConnect [], CallListControllers])"
| "insideDo Finish h = (h = [CallConnect []] \<or> h = [CallConnect [], CallListControllers])"
| "insideDo p h = False"

definition once_inv :: "shared \<times> (nat \<Rightarrow> pc) \<Rightarrow> bool" where
  "once_inv st =
     (case st of (s, pcs) \<Rightarrow>
        (case onceState s of
           NotRun \<Rightarrow> (\<forall>t. pcs t = Start) \<and> hist s = []
         | Running \<Rightarrow> (\<exists>t. insideDo (pcs t) (hist s) \<and> (\<forall>u. u \<noteq> t \<longrightarrow> pcs u = Start))
         | Done \<Rightarrow> (\<forall>t. pcs t = Start \<or> pcs t = ReadFlag \<or> pcs t = Returned (flag s))
                   \<and> probes (hist s) \<le> 1))"

section \<open>Notions the properties are stated with\<close>

text \<open>
  The set a returned tuple belongs to, in the words of the specification: a group tag
  belongs to the groups, a user tag to the service accounts when its id matches the
  service-account pattern and to the users otherwise. It is compared with what
  \<open>tuplesToPlan\<close> computes.
\<close>

datatype subject_set = InUsers | InGroups | InServiceAccounts

definition spec_classify :: "deps \<Rightarrow> RelationshipTuple \<Rightarrow> (subject_set \<times> string) option" where
  "spec_classify X tuple =
     (case ParseTag X (Object tuple) of
        Inl err \<Rightarrow> None
      | Inr tg \<Rightarrow>
          if Kind tg = GroupTagKind then Some (InGroups, Id tg)
          else if Kind tg = UserTagKind then
            (if IsValidServiceAccountId X (Id tg) then Some (InServiceAccounts, Id tg)
             else Some (InUsers, Id tg))
          else None)"

definition members :: "deps \<Rightarrow> subject_set \<Rightarrow> RelationshipTuple list \<Rightarrow> string list" where
  "members X k tuples =
     List.map_filter
       (\<lambda>tuple. case spec_classify X tuple of
                    None \<Rightarrow> None
                  | Some (k', i) \<Rightarrow> if k' = k then Some i else None)
       tuples"

text \<open>
  A tuple is malformed when its object does not parse; \<open>parseDiagnostic\<close> is the error
  diagnostic that \<open>tuplesToPlan\<close> adds for it.
\<close>

definition malformed :: "deps \<Rightarrow> RelationshipTuple \<Rightarrow> bool" where
  "malformed X tuple = isl (ParseTag X (Object tuple))"

definition parseDiagnostic :: "deps \<Rightarrow> RelationshipTuple \<Rightarrow> diagnostic" where
  "parseDiagnostic X tuple =
     ErrorDiagnostic ''failed to parse relation tag''
       (''error parsing '' @ Object tuple @ '':'' @ projl (ParseTag X (Object tuple)))"

text \<open>
  The pages of a listing: the responses of the controller to a request and to the
  requests that follow it, each carrying the continuation token of the response
  before; every response is free of errors, and the last one is the first whose token
  is empty.
\<close>

inductive pages ::
  "controller \<Rightarrow> event list \<Rightarrow> ListRelationshipTuplesRequest \<Rightarrow>
   ListRelationshipTuplesResponse list \<Rightarrow> bool" where
  last_page:
    "ListRelationshipTuples C h req = Inr r \<Longrightarrow> Errors r = [] \<Longrightarrow> ContinuationToken r = [] \<Longrightarrow>
     pages C h req [r]"
| next_page:
    "ListRelationshipTuples C h req = Inr r \<Longrightarrow> Errors r = [] \<Longrightarrow> ContinuationToken r \<noteq> [] \<Longrightarrow>
     pages C (h @ [CallListRelationshipTuples req])
       (req\<lparr>ReqContinuationToken := ContinuationToken r\<rparr>) rs \<Longrightarrow>
     pages C h req (r # rs)"

text \<open>
  The requests that fetch the pages: the first request, and after each response the
  request with the token of that response.
\<close>

fun pageRequests ::
  "ListRelationshipTuplesRequest \<Rightarrow> ListRelationshipTuplesResponse list \<Rightarrow>
   ListRelationshipTuplesRequest list" where
  "pageRequests req [] = []"
| "pageRequests req (r # rs) =
     req # pageRequests (req\<lparr>ReqContinuationToken := ContinuationToken r\<rparr>) rs"

section \<open>Instances for evaluation\<close>

text \<open>
  Small instances of the parameters, on which the model is evaluated at concrete
  inputs. \<open>sampleDeps\<close> renders a known string in double quotes and a null string as
  \<open><null>\<close>, tags a user name with \<open>user-\<close>, parses the tags \<open>user-x\<close> and \<open>group-x\<close>
  and rejects every other string, and takes an id that ends in \<open>@serviceaccount\<close> for a
  service account.
\<close>

fun sample_String_of :: "tf_string \<Rightarrow> string" where
  "sample_String_of StringNull = ''<null>''"
| "sample_String_of StringUnknown = ''<unknown>''"
| "sample_String_of (StringValue s) = [CHR 0x22] @ s @ [CHR 0x22]"

definition sample_ParseTag :: "string \<Rightarrow> string + Tag" where
  "sample_ParseTag s =
     (if take 5 s = ''user-'' \<and> drop 5 s \<noteq> [] then Inr \<lparr>Kind = ''user'', Id = drop 5 s\<rparr>
      else if take 6 s = ''group-'' \<and> drop 6 s \<noteq> [] then Inr \<lparr>Kind = ''group'', Id = drop 6 s\<rparr>
      else Inl (s @ '' is not a valid tag''))"

definition sample_IsValidServiceAccountId :: "string \<Rightarrow> bool" where
  "sample_IsValidServiceAccountId s =
     (15 < length s \<and> drop (length s - 15) s = ''@serviceaccount'')"

definition sampleDeps :: deps where
  "sampleDeps =
     \<lparr>String_of = sample_String_of,
      NewUserTag = (\<lambda>s. Some (''user-'' @ s)),
      ParseTag = sample_ParseTag,
      IsValidServiceAccountId = sample_IsValidServiceAccountId,
      clientNotConfigured =
        (\<lambda>res method. ErrorDiagnostic ''Provider Error, Client Not Configured''
           (''Unable to '' @ method @ '' '' @ res @ '' resource.'')),
      State_Set = (\<lambda>plan. []),
      duplicateDetail = (\<lambda>v. ''This attribute contains duplicate values of: '' @ v)\<rparr>"

text \<open>A controller that accepts every request and lists nothing.\<close>

definition okController :: controller where
  "okController =
     \<lparr>Connect = (\<lambda>h uuid. None),
      AddRelation = (\<lambda>h ts. None),
      RemoveRelation = (\<lambda>h ts. None),
      ListRelationshipTuples = (\<lambda>h req. Inr \<lparr>Tuples = [], Errors = [], ContinuationToken = []\<rparr>),
      ListControllers = (\<lambda>h. None),
      ListModelSummaries = (\<lambda>h. Inr [])\<rparr>"

text \<open>
  A controller that lists the given tuples on one page, and one that lists five tuples
  on three pages of two, two and one tuples, with the tokens \<open>a\<close>, \<open>b\<close> and the empty
  token.
\<close>

definition tupleOf :: "string \<Rightarrow> RelationshipTuple" where
  "tupleOf obj = \<lparr>Object = obj, Relation = ''reader'', TargetObject = ''model-1234''\<rparr>"

definition listingController :: "RelationshipTuple list \<Rightarrow> controller" where
  "listingController tuples =
     okController\<lparr>ListRelationshipTuples :=
       (\<lambda>h req. Inr \<lparr>Tuples = tuples, Errors = [], ContinuationToken = []\<rparr>)\<rparr>"

definition pagedController :: controller where
  "pagedController =
     okController\<lparr>ListRelationshipTuples :=
       (\<lambda>h req.
          if ReqContinuationToken req = [] then
            Inr \<lparr>Tuples = [tupleOf ''user-alice'', tupleOf ''user-bob''], Errors = [],
                 ContinuationToken = ''a''\<rparr>
          else if ReqContinuationToken req = ''a'' then
            Inr \<lparr>Tuples = [tupleOf ''user-carol'', tupleOf ''group-admins''], Errors = [],
                 ContinuationToken = ''b''\<rparr>
          else if ReqContinuationToken req = ''b'' then
            Inr \<lparr>Tuples = [tupleOf ''user-dave@serviceaccount''], Errors = [],
                 ContinuationToken = []\<rparr>
          else Inl ''unknown continuation token'')\<rparr>"

text \<open>A grant of \<open>reader\<close> on the model \<open>1234\<close>, and the requests that carry it.\<close>

definition readerModel :: "string list \<Rightarrow> genericJAASAccessModel" where
  "readerModel users =
     \<lparr>Users = users, ServiceAccounts = [], Groups = [],
      Access = StringValue ''reader'', ID = StringNull\<rparr>"

definition getterOf :: "genericJAASAccessModel \<Rightarrow> Getter" where
  "getterOf m =
     \<lparr>Get_diags = [], Get_model = m, Get_target_diags = [], Get_target = StringValue ''1234''\<rparr>"

definition sampleResource :: "controller \<Rightarrow> genericJAASAccessResource" where
  "sampleResource C = \<lparr>client = Some C, targetInfo = modelInfo_Identity sampleDeps\<rparr>"

definition emptyResponse :: Response where
  "emptyResponse = \<lparr>Diagnostics = [], State = None, Panicked = False\<rparr>"

text \<open>The query of the sample resource, and the three pages of \<open>pagedController\<close>.\<close>

definition accessQuery :: RelationshipTuple where
  "accessQuery = \<lparr>Object = [], Relation = sample_String_of (StringValue ''reader''),
     TargetObject = ''model-'' @ sample_String_of (StringValue ''1234'')\<rparr>"

definition page1 :: ListRelationshipTuplesResponse where
  "page1 = \<lparr>Tuples = [tupleOf ''user-alice'', tupleOf ''user-bob''], Errors = [],
     ContinuationToken = ''a''\<rparr>"

definition page2 :: ListRelationshipTuplesResponse where
  "page2 = \<lparr>Tuples = [tupleOf ''user-carol'', tupleOf ''group-admins''], Errors = [],
     ContinuationToken = ''b''\<rparr>"

definition page3 :: ListRelationshipTuplesResponse where
  "page3 = \<lparr>Tuples = [tupleOf ''user-dave@serviceaccount''], Errors = [],
     ContinuationToken = []\<rparr>"

text \<open>
  Modelled from the spec: package \<open>modelcache\<close> is not among the sources. The
  specification describes the cache as storage of one record per model, looked up by
  name, which \<open>fillCache\<close> replaces as a whole with one record per summary. \<open>listCache\<close>
  is that cache as a list of records; it instantiates the cache parameter at concrete
  inputs.
\<close>

definition listCache :: "jujuModel list modelcache" where
  "listCache =
     \<lparr>NewModelCache = [],
      Lookup = (\<lambda>c name. case find (\<lambda>m. Name m = name) c of
                           None \<Rightarrow> Inl (''model '' @ name @ '' not found'')
                         | Some m \<Rightarrow> Inr m),
      FillCache = (\<lambda>c summaries.
         map (\<lambda>s. \<lparr>Name = SummaryName s, Owner = SummaryOwner s, UUID = SummaryUUID s,
                    ModelType = SummaryType s\<rparr>) summaries)\<rparr>"

text \<open>
  A controller with the given models, a controller that refuses every connection, and
  a configuration without a client id.
\<close>

definition devSummary :: ModelSummary where
  "devSummary = \<lparr>SummaryName = ''dev'', SummaryOwner = ''admin'', SummaryUUID = ''uuid-dev'',
     SummaryType = ''iaas''\<rparr>"

definition modelsController :: "ModelSummary list \<Rightarrow> controller" where
  "modelsController summaries = okController\<lparr>ListModelSummaries := (\<lambda>h. Inr summaries)\<rparr>"

definition downController :: controller where
  "downController = okController\<lparr>Connect := (\<lambda>h uuid. Some ''connection refused'')\<rparr>"

definition sampleConfig :: ControllerConfiguration where
  "sampleConfig = \<lparr>ControllerAddresses = [''10.0.0.1:17070''], Username = ''admin'',
     Password = ''secret'', CACert = [], ClientID = [], ClientSecret = []\<rparr>"

text \<open>
  Two callers on a controller that refuses the connection: the first passes the default
  true, every other caller the default false, and both have returned.
\<close>

definition defaultOfFirst :: "nat \<Rightarrow> bool" where
  "defaultOfFirst t = (t = 0)"

definition bothReturned :: "shared \<times> (nat \<Rightarrow> pc)" where
  "bothReturned =
     (\<lparr>onceState = Done, flag = True, hist = [CallConnect []]\<rparr>,
      (\<lambda>t. Start)(0 := Returned True, 1 := Returned True))"

chapter \<open>Properties\<close>

section \<open>Properties of the difference\<close>

lemma diffSet_found_iff: "diffSet_found source desired found \<longleftrightarrow> found \<or> source \<in> set desired"
  by (induction desired arbitrary: found) auto

lemma diffSet_loop_filter:
  "diffSet_loop current desired diff = diff @ filter (\<lambda>s. s \<notin> set desired) current"
  by (induction current arbitrary: diff) (simp_all add: diffSet_found_iff)

lemma diffSet_filter: "diffSet current desired = filter (\<lambda>s. s \<notin> set desired) current"
  by (simp add: diffSet_def diffSet_loop_filter)



section \<open>Diagnostics\<close>

lemma set_diags_Append: "set (diags_Append ds new) = set ds \<union> set new"
  by (induction new arbitrary: ds) auto

lemma HasError_iff: "HasError ds \<longleftrightarrow> (\<exists>d\<in>set ds. isErrorDiagnostic d)"
  by (simp add: HasError_def list_ex_iff)

lemma HasError_diags_Append: "HasError (diags_Append ds new) \<longleftrightarrow> HasError ds \<or> HasError new"
  by (auto simp: HasError_iff set_diags_Append)

lemma diags_Append_assoc: "diags_Append (diags_Append ds xs) ys = diags_Append ds (xs @ ys)"
  by (induction xs arbitrary: ds) auto

section \<open>The order of the requests of an update\<close>

text \<open>
  Claim C2. The history that \<open>Update\<close> leaves is determined. With a configured client,
  no error among the diagnostics and no panic, \<open>Update\<close> calls \<open>AddTuples\<close> with the tuples
  of \<open>toAdd\<close> first: a connection, and if it is made the add request. Only when that
  request succeeded does it go on to \<open>DeleteTuples\<close> with the tuples of \<open>toRemove\<close>: a
  second connection, and if it is made the remove request. When the controller accepts
  everything the history grows by exactly the add request and then the remove request,
  each after its connection. Whenever a remove request is among the new requests, it
  is the last of them, the add request with the tuples of \<open>toAdd\<close> stands before it, and
  \<open>AddTuples\<close> returned no error.
\<close>

theorem Update_add_before_remove:
  fixes a X req_State req_Plan resp h
  defines "d1 \<equiv> diags_Append (Diagnostics resp) (Get_diags req_State)"
    and "d2 \<equiv> diags_Append (diags_Append (Diagnostics resp) (Get_diags req_State))
                 (Get_diags req_Plan)"
    and "targetID \<equiv> fst (targetInfo a req_State
                 (diags_Append (diags_Append (Diagnostics resp) (Get_diags req_State))
                    (Get_diags req_Plan)))"
    and "d3 \<equiv> snd (targetInfo a req_State
                 (diags_Append (diags_Append (Diagnostics resp) (Get_diags req_State))
                    (Get_diags req_Plan)))"
    and "toAdd \<equiv> fst (diffPlans (Get_model req_Plan) (Get_model req_State))"
    and "toRemove \<equiv> snd (diffPlans (Get_model req_Plan) (Get_model req_State))"
    and "h' \<equiv> snd (Update a X req_State req_Plan resp h)"
  shows "h' =
          (case client a of
             None \<Rightarrow> h
           | Some C \<Rightarrow>
               if HasError d1 \<or> HasError d2 \<or> HasError d3 then h
               else
                 (case planToTuples X targetID toAdd d3 of
                    None \<Rightarrow> h
                  | Some ts \<Rightarrow>
                      (case Connect C h [] of
                         Some err \<Rightarrow> h @ [CallConnect []]
                       | None \<Rightarrow>
                           (case AddRelation C (h @ [CallConnect []]) ts of
                              Some err \<Rightarrow> h @ [CallConnect [], CallAddRelation ts]
                            | None \<Rightarrow>
                                (case planToTuples X targetID toRemove d3 of
                                   None \<Rightarrow> h @ [CallConnect [], CallAddRelation ts]
                                 | Some rs \<Rightarrow>
                                     (case Connect C (h @ [CallConnect [], CallAddRelation ts]) [] of
                                        Some err \<Rightarrow>
                                          h @ [CallConnect [], CallAddRelation ts, CallConnect []]
                                      | None \<Rightarrow>
                                          h @ [CallConnect [], CallAddRelation ts, CallConnect [],
                                               CallRemoveRelation rs]))))))
       \<and> (\<forall>before rs after. h' = h @ before @ CallRemoveRelation rs # after \<longrightarrow>
            (\<exists>C ts. client a = Some C
                \<and> planToTuples X targetID toAdd d3 = Some ts
                \<and> planToTuples X targetID toRemove d3 = Some rs
                \<and> before = [CallConnect [], CallAddRelation ts, CallConnect []] \<and> after = []
                \<and> AddTuples C h ts = (None, h @ [CallConnect [], CallAddRelation ts])))"
proof -
  obtain tA tR where dp: "diffPlans (Get_model req_Plan) (Get_model req_State) = (tA, tR)"
    by (cases "diffPlans (Get_model req_Plan) (Get_model req_State)")
  obtain tid d where ti: "targetInfo a req_State
      (diags_Append (diags_Append (Diagnostics resp) (Get_diags req_State)) (Get_diags req_Plan))
      = (tid, d)"
    by (cases "targetInfo a req_State
      (diags_Append (diags_Append (Diagnostics resp) (Get_diags req_State)) (Get_diags req_Plan))")
  have eq: "h' =
          (case client a of
             None \<Rightarrow> h
           | Some C \<Rightarrow>
               if HasError d1 \<or> HasError d2 \<or> HasError d3 then h
               else
                 (case planToTuples X targetID toAdd d3 of
                    None \<Rightarrow> h
                  | Some ts \<Rightarrow>
                      (case Connect C h [] of
                         Some err \<Rightarrow> h @ [CallConnect []]
                       | None \<Rightarrow>
                           (case AddRelation C (h @ [CallConnect []]) ts of
                              Some err \<Rightarrow> h @ [CallConnect [], CallAddRelation ts]
                            | None \<Rightarrow>
                                (case planToTuples X targetID toRemove d3 of
                                   None \<Rightarrow> h @ [CallConnect [], CallAddRelation ts]
                                 | Some rs \<Rightarrow>
                                     (case Connect C (h @ [CallConnect [], CallAddRelation ts]) [] of
                                        Some err \<Rightarrow>
                                          h @ [CallConnect [], CallAddRelation ts, CallConnect []]
                                      | None \<Rightarrow>
                                          h @ [CallConnect [], CallAddRelation ts, CallConnect [],
                                               CallRemoveRelation rs]))))))"
    unfolding h'_def d1_def d2_def d3_def targetID_def toAdd_def toRemove_def
    by (simp add: Update_def AddTuples_def DeleteTuples_def GetConnection_nil_def Let_def dp ti
          split: option.splits)
  have order: "\<exists>C ts. client a = Some C
                \<and> planToTuples X targetID toAdd d3 = Some ts
                \<and> planToTuples X targetID toRemove d3 = Some rs
                \<and> before = [CallConnect [], CallAddRelation ts, CallConnect []] \<and> after = []
                \<and> AddTuples C h ts = (None, h @ [CallConnect [], CallAddRelation ts])"
    if r: "h' = h @ before @ CallRemoveRelation rs # after" for before rs after
    using eq r
    by (auto simp: AddTuples_def GetConnection_nil_def append_eq_Cons_conv Cons_eq_append_conv
          split: option.splits if_splits)
  show ?thesis using eq order by blast
qed

theorem Update_add_before_remove_witness:
  "snd (Update (sampleResource okController) sampleDeps
          (getterOf (readerModel [''alice'', ''bob'']))
          (getterOf (readerModel [''bob'', ''carol''])) emptyResponse [])
     = [CallConnect [],
        CallAddRelation
          [\<lparr>Object = ''user-carol'', Relation = sample_String_of StringNull, TargetObject = []\<rparr>],
        CallConnect [],
        CallRemoveRelation
          [\<lparr>Object = ''user-alice'', Relation = sample_String_of StringNull, TargetObject = []\<rparr>]]"
proof -
  let ?st = "getterOf (readerModel [''alice'', ''bob''])"
  let ?pl = "getterOf (readerModel [''bob'', ''carol''])"
  let ?a = "sampleResource okController"
  have n: "\<not> HasError []" by (simp add: HasError_def)
  have c: "client ?a = Some okController" by (simp add: sampleResource_def)
  have g: "Diagnostics emptyResponse = []" "Get_diags (getterOf m) = []"
          "Get_model (getterOf m) = m" for m
    by (simp_all add: emptyResponse_def getterOf_def)
  have ti: "targetInfo ?a (getterOf m) [] = (TargetObject accessQuery, [])"
    for m
    by (simp add: sampleResource_def modelInfo_Identity_def getterOf_def sampleDeps_def
          accessQuery_def)
  have dp: "diffPlans (readerModel [''bob'', ''carol'']) (readerModel [''alice'', ''bob''])
              = (zeroModel\<lparr>Users := [''carol'']\<rparr>, zeroModel\<lparr>Users := [''alice'']\<rparr>)"
    by (simp add: diffPlans_def diffSet_def readerModel_def zeroModel_def)
  have pa: "planToTuples sampleDeps (TargetObject accessQuery)
              (zeroModel\<lparr>Users := [''carol'']\<rparr>) []
            = Some [\<lparr>Object = ''user-carol'', Relation = sample_String_of StringNull,
                     TargetObject = []\<rparr>]"
    by (simp add: planToTuples_def HasError_def zeroModel_def sampleDeps_def)
  have pr: "planToTuples sampleDeps (TargetObject accessQuery)
              (zeroModel\<lparr>Users := [''alice'']\<rparr>) []
            = Some [\<lparr>Object = ''user-alice'', Relation = sample_String_of StringNull,
                     TargetObject = []\<rparr>]"
    by (simp add: planToTuples_def HasError_def zeroModel_def sampleDeps_def)
  have ok: "Connect okController hh [] = None" "AddRelation okController hh ts = None" for hh ts
    by (simp_all add: okController_def)
  note t = Update_add_before_remove
     [where a = ?a and X = sampleDeps and req_State = ?st and req_Plan = ?pl
        and resp = emptyResponse and h = "[]", THEN conjunct1]
  show ?thesis
    using t n by (simp add: c g ti dp pa pr ok)
qed

section \<open>An update that changes nothing\<close>

lemma diffSet_subset_Nil: "set current \<subseteq> set desired \<Longrightarrow> diffSet current desired = []"
  by (auto simp: diffSet_filter filter_empty_conv)

lemma planToTuples_no_subjects:
  "Users plan = [] \<Longrightarrow> Groups plan = [] \<Longrightarrow> ServiceAccounts plan = [] \<Longrightarrow>
   planToTuples X targetTag plan diag = Some []"
  by (simp add: planToTuples_def)

text \<open>
  Claim C5 says that an update whose plan has the members of the state in each of the
  three sets performs no add and no remove call. \<open>Update\<close> has no such check: with no
  diagnostics and a controller that accepts the requests it sends an add request with
  an empty batch and then a remove request with an empty batch.
\<close>

theorem Update_unchanged_still_calls:
  fixes a X req_State req_Plan resp h
  defines "plan \<equiv> Get_model req_Plan" and "state \<equiv> Get_model req_State"
  assumes cl: "client a = Some C"
    and d: "Diagnostics resp = []" "Get_diags req_State = []" "Get_diags req_Plan = []"
    and ti: "targetInfo a req_State [] = (targetID, [])"
    and eq: "set (Users plan) = set (Users state)" "set (Groups plan) = set (Groups state)"
            "set (ServiceAccounts plan) = set (ServiceAccounts state)"
    and ok: "Connect C h [] = None" "AddRelation C (h @ [CallConnect []]) [] = None"
            "Connect C (h @ [CallConnect [], CallAddRelation []]) [] = None"
  shows "snd (Update a X req_State req_Plan resp h)
           = h @ [CallConnect [], CallAddRelation [], CallConnect [], CallRemoveRelation []]"
proof -
  have n: "\<not> HasError []" by (simp add: HasError_def)
  have dp: "diffPlans plan state = (zeroModel, zeroModel)"
    using eq by (simp add: diffPlans_def diffSet_subset_Nil zeroModel_def)
  have pt: "planToTuples X targetID zeroModel [] = Some []"
    by (rule planToTuples_no_subjects) (simp_all add: zeroModel_def)
  show ?thesis
    using cl d ti ok n dp pt
    by (simp add: Update_def plan_def state_def AddTuples_def DeleteTuples_def
          GetConnection_nil_def Let_def split: option.splits)
qed

theorem Update_unchanged_still_calls_witness:
  "snd (Update (sampleResource okController) sampleDeps (getterOf (readerModel [''alice'']))
          (getterOf (readerModel [''alice''])) emptyResponse [])
     = [CallConnect [], CallAddRelation [], CallConnect [], CallRemoveRelation []]"
proof -
  have 1: "client (sampleResource okController) = Some okController"
    by (simp add: sampleResource_def)
  have 2: "Diagnostics emptyResponse = []" "Get_diags (getterOf (readerModel [''alice''])) = []"
    by (simp_all add: emptyResponse_def getterOf_def)
  have 3: "targetInfo (sampleResource okController) (getterOf (readerModel [''alice''])) []
             = (''model-'' @ sample_String_of (StringValue ''1234''), [])"
    by (simp add: sampleResource_def modelInfo_Identity_def getterOf_def sampleDeps_def)
  have 5: "Connect okController [] [] = None"
          "AddRelation okController ([] @ [CallConnect []]) [] = None"
          "Connect okController ([] @ [CallConnect [], CallAddRelation []]) [] = None"
    by (simp_all add: okController_def)
  show ?thesis
    using Update_unchanged_still_calls[OF 1 2(1) 2(2) 2(2) 3 refl refl refl 5] by simp
qed

section \<open>The tuples of a plan\<close>

lemma makeTuples_Some:
  "makeTuples b items f = Some tuples \<Longrightarrow>
   map Some (map Object tuples) = map f items
   \<and> map Relation tuples = replicate (length items) (Relation b)
   \<and> map TargetObject tuples = replicate (length items) (TargetObject b)"
  by (induction items arbitrary: tuples) (auto split: option.splits)

lemma planToTuples_shape:
  assumes "planToTuples X targetTag plan diag = Some tuples" "\<not> HasError diag"
  shows "map Some (map Object tuples) =
           map (NewUserTag X) (Users plan) @ map groupNameToTagf (Groups plan)
             @ map (NewUserTag X) (ServiceAccounts plan)"
    and "map Relation tuples = replicate (length tuples) (String_of X (Access plan))"
    and "map TargetObject tuples = replicate (length tuples) []"
    and "length tuples = length (Users plan) + length (Groups plan) + length (ServiceAccounts plan)"
proof -
  from assms obtain us gs ss where
    us: "makeTuples \<lparr>Object = targetTag, Relation = String_of X (Access plan), TargetObject = []\<rparr>
           (Users plan) (NewUserTag X) = Some us"
    and gs: "makeTuples \<lparr>Object = targetTag, Relation = String_of X (Access plan), TargetObject = []\<rparr>
           (Groups plan) groupNameToTagf = Some gs"
    and ss: "makeTuples \<lparr>Object = targetTag, Relation = String_of X (Access plan), TargetObject = []\<rparr>
           (ServiceAccounts plan) (NewUserTag X) = Some ss"
    and t: "tuples = us @ gs @ ss"
    by (auto simp: planToTuples_def Let_def split: option.splits)
  note m = makeTuples_Some[OF us] makeTuples_Some[OF gs] makeTuples_Some[OF ss]
  have l: "length us = length (Users plan)" "length gs = length (Groups plan)"
       "length ss = length (ServiceAccounts plan)"
    using m by (metis length_map)+
  show "map Some (map Object tuples) =
           map (NewUserTag X) (Users plan) @ map groupNameToTagf (Groups plan)
             @ map (NewUserTag X) (ServiceAccounts plan)"
    using m t by simp
  show "map Relation tuples = replicate (length tuples) (String_of X (Access plan))"
    using m t l by (simp add: replicate_add)
  show "map TargetObject tuples = replicate (length tuples) []"
    using m t l by (simp add: replicate_add)
  show "length tuples = length (Users plan) + length (Groups plan) + length (ServiceAccounts plan)"
    using t l by simp
qed

text \<open>
  Claim C6 says that \<open>Create\<close> sends one add request with one tuple per subject, tagged
  by its kind, with the relation and the target tag of the plan on every tuple. With
  no diagnostics, no panic and a connection, \<open>Create\<close> sends one add request; its batch
  has one tuple per user, group and service account, in this order, their objects are
  the user tags, group tags and user tags of the subjects, and every relation is the
  rendered access of the plan. The target tag is on no tuple: \<open>planToTuples\<close> stores it
  in the \<open>Object\<close> of the base tuple, which \<open>makeTuples\<close> overwrites, and every
  \<open>TargetObject\<close> is empty.
\<close>

theorem Create_tuples_lack_target:
  fixes a X req_Plan resp h
  defines "plan \<equiv> Get_model req_Plan"
  assumes cl: "client a = Some C"
    and d: "Diagnostics resp = []" "Get_diags req_Plan = []"
    and ti: "targetInfo a req_Plan [] = (targetID, [])"
    and pt: "planToTuples X targetID plan [] = Some tuples"
    and co: "Connect C h [] = None"
  shows "snd (Create a X req_Plan resp h) = h @ [CallConnect [], CallAddRelation tuples]
       \<and> length tuples = length (Users plan) + length (Groups plan) + length (ServiceAccounts plan)
       \<and> map Some (map Object tuples) =
           map (NewUserTag X) (Users plan) @ map groupNameToTagf (Groups plan)
             @ map (NewUserTag X) (ServiceAccounts plan)
       \<and> map Relation tuples = replicate (length tuples) (String_of X (Access plan))
       \<and> map TargetObject tuples = replicate (length tuples) []"
proof -
  have n: "\<not> HasError []" by (simp add: HasError_def)
  have "snd (Create a X req_Plan resp h) = h @ [CallConnect [], CallAddRelation tuples]"
    using cl d ti pt co n
    by (simp add: Create_def plan_def AddTuples_def GetConnection_nil_def Let_def
          split: option.splits)
  then show ?thesis
    using planToTuples_shape[OF pt n] by simp
qed

theorem Create_tuples_lack_target_witness:
  "snd (Create (sampleResource okController) sampleDeps
          (getterOf (readerModel [''alice'', ''bob''])) emptyResponse [])
     = [CallConnect [],
        CallAddRelation
          [\<lparr>Object = ''user-alice'', Relation = sample_String_of (StringValue ''reader''),
             TargetObject = []\<rparr>,
           \<lparr>Object = ''user-bob'', Relation = sample_String_of (StringValue ''reader''),
             TargetObject = []\<rparr>]]"
proof -
  let ?ts = "[\<lparr>Object = ''user-alice'', Relation = sample_String_of (StringValue ''reader''),
             TargetObject = []\<rparr>,
           \<lparr>Object = ''user-bob'', Relation = sample_String_of (StringValue ''reader''),
             TargetObject = []\<rparr>]"
  have 1: "client (sampleResource okController) = Some okController"
    by (simp add: sampleResource_def)
  have 2: "Diagnostics emptyResponse = []" "Get_diags (getterOf (readerModel [''alice'', ''bob''])) = []"
    by (simp_all add: emptyResponse_def getterOf_def)
  have 3: "targetInfo (sampleResource okController) (getterOf (readerModel [''alice'', ''bob''])) []
             = (''model-'' @ sample_String_of (StringValue ''1234''), [])"
    by (simp add: sampleResource_def modelInfo_Identity_def getterOf_def sampleDeps_def)
  have 4: "planToTuples sampleDeps (''model-'' @ sample_String_of (StringValue ''1234''))
             (Get_model (getterOf (readerModel [''alice'', ''bob'']))) [] = Some ?ts"
    by (simp add: planToTuples_def HasError_def getterOf_def readerModel_def sampleDeps_def
          groupNameToTagf_def)
  have 5: "Connect okController [] [] = None"
    by (simp add: okController_def)
  show ?thesis
    using Create_tuples_lack_target[OF 1 2 3 4 5] by simp
qed

section \<open>From tuples to a plan\<close>

lemma UserTagKind_neq: "UserTagKind \<noteq> GroupTagKind"
  by (simp add: UserTagKind_def GroupTagKind_def)

lemma members_Nil: "members X k [] = []"
  by (simp add: members_def List.map_filter_simps)

lemma members_Cons:
  "members X k (t # ts) =
     (case spec_classify X t of None \<Rightarrow> members X k ts
      | Some (k', i) \<Rightarrow> if k' = k then i # members X k ts else members X k ts)"
  by (simp add: members_def List.map_filter_simps split: option.splits)

lemma tuplesToPlan_loop_members:
  "tuplesToPlan_loop X tuples (us, gs, ss, d) =
     (us @ members X InUsers tuples, gs @ members X InGroups tuples,
      ss @ members X InServiceAccounts tuples,
      diags_Append d (map (parseDiagnostic X) (filter (malformed X) tuples)))"
proof (induction tuples arbitrary: us gs ss d)
  case Nil
  show ?case by (simp add: members_Nil)
next
  case (Cons t ts)
  show ?case
  proof (cases "ParseTag X (Object t)")
    case (Inl err)
    then show ?thesis
      using Cons.IH
      by (simp add: members_Cons spec_classify_def malformed_def parseDiagnostic_def AddError_def
            diags_Append_assoc)
  next
    case (Inr tg)
    then show ?thesis
      using Cons.IH UserTagKind_neq
      by (auto simp: members_Cons spec_classify_def malformed_def)
  qed
qed

lemma duplicates_Nil_iff: "duplicates xs = [] \<longleftrightarrow> distinct xs"
  by (induction xs) (auto simp: filter_empty_conv)

lemma HasError_duplicate_diags:
  "HasError (diags_Append [] (map (\<lambda>v. ErrorDiagnostic s (f v)) vs)) \<longleftrightarrow> vs \<noteq> []"
  by (cases vs) (auto simp: HasError_iff set_diags_Append)

lemma NewSetValueFrom_distinct: "distinct xs \<Longrightarrow> NewSetValueFrom X xs = (xs, [])"
  using duplicates_Nil_iff[of xs] by (simp add: NewSetValueFrom_def HasError_def)

lemma NewSetValueFrom_duplicate:
  "\<not> distinct xs \<Longrightarrow> fst (NewSetValueFrom X xs) = [] \<and> HasError (snd (NewSetValueFrom X xs))"
  by (simp add: NewSetValueFrom_def Let_def HasError_duplicate_diags duplicates_Nil_iff)

lemma fst_tuplesToPlan:
  "fst (tuplesToPlan X tuples d) =
     zeroModel\<lparr>Users := fst (NewSetValueFrom X (members X InUsers tuples)),
               Groups := fst (NewSetValueFrom X (members X InGroups tuples)),
               ServiceAccounts := fst (NewSetValueFrom X (members X InServiceAccounts tuples))\<rparr>"
  by (simp add: tuplesToPlan_def tuplesToPlan_loop_members split: prod.splits)

lemma set_snd_tuplesToPlan:
  "set (snd (tuplesToPlan X tuples d)) =
     set d \<union> parseDiagnostic X ` {t \<in> set tuples. malformed X t}
       \<union> set (snd (NewSetValueFrom X (members X InUsers tuples)))
       \<union> set (snd (NewSetValueFrom X (members X InGroups tuples)))
       \<union> set (snd (NewSetValueFrom X (members X InServiceAccounts tuples)))"
  by (simp add: tuplesToPlan_def tuplesToPlan_loop_members set_diags_Append split: prod.splits)

lemma classified_count:
  "length (members X InUsers ts) + length (members X InGroups ts)
     + length (members X InServiceAccounts ts)
   = length (filter (\<lambda>t. spec_classify X t \<noteq> None) ts)"
proof (induction ts)
  case Nil
  show ?case by (simp add: members_Nil)
next
  case (Cons t ts)
  show ?case
  proof (cases "spec_classify X t")
    case None
    then show ?thesis using Cons by (simp add: members_Cons)
  next
    case (Some p)
    obtain k i where p: "p = (k, i)" by (cases p)
    show ?thesis using Cons Some p by (cases k) (simp_all add: members_Cons)
  qed
qed

text \<open>
  Claim C4 says that for every list of tuples each tuple's object is folded into the one
  set its kind names. It fails on a list that gives the same id twice: for two tuples
  of the user \<open>bob\<close> the set of users is rejected as a set with a duplicate element, the
  result holds no user, and an error diagnostic is added.
\<close>

theorem tuplesToPlan_drops_duplicate_ids:
  "tuplesToPlan sampleDeps [tupleOf ''user-bob'', tupleOf ''user-bob''] []
     = (\<lparr>Users = [], ServiceAccounts = [], Groups = [], Access = StringNull, ID = StringNull\<rparr>,
        [ErrorDiagnostic ''Duplicate Set Element''
           ''This attribute contains duplicate values of: bob''])"
  by (simp add: tuplesToPlan_def NewSetValueFrom_def HasError_def sampleDeps_def tupleOf_def
        sample_ParseTag_def UserTagKind_def sample_IsValidServiceAccountId_def zeroModel_def)

text \<open>
  Claim C4 as amended. For every list of tuples, \<open>tuplesToPlan\<close> puts the id of each tuple
  into the set that the kind of its object names, as long as no id comes twice in that
  set: the groups of the result are the ids of the group tags, the service accounts
  are the ids of the user tags that match the service-account pattern, and the users
  are the ids of the other user tags, each in the order of the list; when no set has
  an id twice, every tuple with such a tag is in exactly one of the three sets, once.
  A set in which an id would come twice is returned without elements, and the
  diagnostics then hold an error.
\<close>

theorem tuplesToPlan_classifies:
  fixes X tuples diag
  defines "plan \<equiv> fst (tuplesToPlan X tuples diag)"
    and "out \<equiv> snd (tuplesToPlan X tuples diag)"
  shows "(distinct (members X InUsers tuples) \<longrightarrow> Users plan = members X InUsers tuples)
       \<and> (distinct (members X InGroups tuples) \<longrightarrow> Groups plan = members X InGroups tuples)
       \<and> (distinct (members X InServiceAccounts tuples) \<longrightarrow>
            ServiceAccounts plan = members X InServiceAccounts tuples)
       \<and> (distinct (members X InUsers tuples) \<and> distinct (members X InGroups tuples)
            \<and> distinct (members X InServiceAccounts tuples) \<longrightarrow>
            length (Users plan) + length (Groups plan) + length (ServiceAccounts plan)
              = length (filter (\<lambda>t. spec_classify X t \<noteq> None) tuples))
       \<and> (\<not> distinct (members X InUsers tuples) \<longrightarrow> Users plan = [] \<and> HasError out)
       \<and> (\<not> distinct (members X InGroups tuples) \<longrightarrow> Groups plan = [] \<and> HasError out)
       \<and> (\<not> distinct (members X InServiceAccounts tuples) \<longrightarrow>
            ServiceAccounts plan = [] \<and> HasError out)"
proof -
  have u: "Users plan = fst (NewSetValueFrom X (members X InUsers tuples))"
    and g: "Groups plan = fst (NewSetValueFrom X (members X InGroups tuples))"
    and a: "ServiceAccounts plan = fst (NewSetValueFrom X (members X InServiceAccounts tuples))"
    by (simp_all add: plan_def fst_tuplesToPlan zeroModel_def)
  have e: "HasError (snd (NewSetValueFrom X (members X k tuples))) \<Longrightarrow> HasError out" for k
    by (cases k) (auto simp: out_def HasError_iff set_snd_tuplesToPlan)
  have 1: "distinct (members X k tuples) \<Longrightarrow>
           fst (NewSetValueFrom X (members X k tuples)) = members X k tuples" for k
    by (simp add: NewSetValueFrom_distinct)
  have 2: "\<not> distinct (members X k tuples) \<Longrightarrow>
           fst (NewSetValueFrom X (members X k tuples)) = [] \<and> HasError out" for k
    using NewSetValueFrom_duplicate[of "members X k tuples" X] e[of k] by simp
  show ?thesis
    unfolding u g a using 1 2 classified_count[of X tuples] by simp
qed

theorem tuplesToPlan_classifies_witness:
  "Users (fst (tuplesToPlan sampleDeps
       [tupleOf ''user-alice'', tupleOf ''user-bob'', tupleOf ''user-carol'',
        tupleOf ''group-admins'', tupleOf ''user-dave@serviceaccount''] []))
     = [''alice'', ''bob'', ''carol'']
 \<and> Groups (fst (tuplesToPlan sampleDeps
       [tupleOf ''user-alice'', tupleOf ''user-bob'', tupleOf ''user-carol'',
        tupleOf ''group-admins'', tupleOf ''user-dave@serviceaccount''] []))
     = [''admins'']
 \<and> ServiceAccounts (fst (tuplesToPlan sampleDeps
       [tupleOf ''user-alice'', tupleOf ''user-bob'', tupleOf ''user-carol'',
        tupleOf ''group-admins'', tupleOf ''user-dave@serviceaccount''] []))
     = [''dave@serviceaccount'']
 \<and> Users (fst (tuplesToPlan sampleDeps [tupleOf ''user-bob'', tupleOf ''user-bob''] [])) = []
 \<and> HasError (snd (tuplesToPlan sampleDeps [tupleOf ''user-bob'', tupleOf ''user-bob''] []))"
proof -
  let ?ts = "[tupleOf ''user-alice'', tupleOf ''user-bob'', tupleOf ''user-carol'',
        tupleOf ''group-admins'', tupleOf ''user-dave@serviceaccount'']"
  have c: "spec_classify sampleDeps (tupleOf ''user-alice'') = Some (InUsers, ''alice'')"
          "spec_classify sampleDeps (tupleOf ''user-bob'') = Some (InUsers, ''bob'')"
          "spec_classify sampleDeps (tupleOf ''user-carol'') = Some (InUsers, ''carol'')"
          "spec_classify sampleDeps (tupleOf ''group-admins'') = Some (InGroups, ''admins'')"
          "spec_classify sampleDeps (tupleOf ''user-dave@serviceaccount'')
             = Some (InServiceAccounts, ''dave@serviceaccount'')"
    by (simp_all add: spec_classify_def sampleDeps_def tupleOf_def sample_ParseTag_def
          UserTagKind_def GroupTagKind_def sample_IsValidServiceAccountId_def)
  have m: "members sampleDeps InUsers ?ts = [''alice'', ''bob'', ''carol'']"
          "members sampleDeps InGroups ?ts = [''admins'']"
          "members sampleDeps InServiceAccounts ?ts = [''dave@serviceaccount'']"
          "members sampleDeps InUsers [tupleOf ''user-bob'', tupleOf ''user-bob'']
             = [''bob'', ''bob'']"
    by (simp_all add: members_Cons members_Nil c)
  note t = tuplesToPlan_classifies[of sampleDeps ?ts "[]"]
  note d = tuplesToPlan_classifies
             [of sampleDeps "[tupleOf ''user-bob'', tupleOf ''user-bob'']" "[]"]
  show ?thesis
    using t d by (simp add: m)
qed

lemma members_filter: "members X k (filter (\<lambda>t. \<not> malformed X t) tuples) = members X k tuples"
  by (induction tuples)
     (auto simp: members_Nil members_Cons malformed_def spec_classify_def split: sum.splits)

lemma tuplesToPlan_fst_filter:
  "fst (tuplesToPlan X tuples d) = fst (tuplesToPlan X (filter (\<lambda>t. \<not> malformed X t) tuples) d)"
  by (simp add: fst_tuplesToPlan members_filter)

lemma isError_parseDiagnostic: "isErrorDiagnostic (parseDiagnostic X t)"
  by (simp add: parseDiagnostic_def)

section \<open>A malformed tuple in a read\<close>

text \<open>
  Claim C7 says that a tuple that does not parse is skipped with a diagnostic and does
  not make the read fail. The first half holds of \<open>tuplesToPlan\<close> and the second half
  fails: the diagnostic is an error, and \<open>Read\<close> returns when the diagnostics hold an
  error. A listing of a malformed tuple and the tuple of the user \<open>bob\<close> ends the read
  with the error and with no state stored.
\<close>

lemma ReadTuples_listing:
  "ReadTuples (listingController tuples) [] q =
     Some (Inr tuples,
           [CallConnect [], CallListRelationshipTuples \<lparr>ReqTuple = q, ReqContinuationToken = []\<rparr>])"
  by (simp add: ReadTuples_def GetConnection_nil_def listingController_def okController_def
        ReadTuples_loop.simps)

theorem Read_fails_on_malformed_tuple:
  "Read (sampleResource (listingController [tupleOf ''bogus'', tupleOf ''user-bob'']))
      sampleDeps (getterOf (readerModel [])) emptyResponse []
     = Some (\<lparr>Diagnostics =
                [ErrorDiagnostic ''failed to parse relation tag''
                   ''error parsing bogus:bogus is not a valid tag''],
              State = None, Panicked = False\<rparr>,
             [CallConnect [],
              CallListRelationshipTuples \<lparr>ReqTuple = accessQuery, ReqContinuationToken = []\<rparr>])"
proof -
  let ?C = "listingController [tupleOf ''bogus'', tupleOf ''user-bob'']"
  let ?g = "getterOf (readerModel [])"
  have n: "\<not> HasError []" by (simp add: HasError_def)
  have 1: "client (sampleResource ?C) = Some ?C"
    by (simp add: sampleResource_def)
  have d: "diags_Append (Diagnostics emptyResponse) (Get_diags ?g) = []"
    by (simp add: emptyResponse_def getterOf_def)
  have 3: "targetInfo (sampleResource ?C) ?g [] = (TargetObject accessQuery, [])"
    by (simp add: sampleResource_def modelInfo_Identity_def getterOf_def sampleDeps_def
          accessQuery_def)
  have 4: "ReadTuples ?C [] \<lparr>Object = [], Relation = String_of sampleDeps (Access (Get_model ?g)),
              TargetObject = TargetObject accessQuery\<rparr>
            = Some (Inr [tupleOf ''bogus'', tupleOf ''user-bob''],
                    [CallConnect [],
                     CallListRelationshipTuples \<lparr>ReqTuple = accessQuery, ReqContinuationToken = []\<rparr>])"
    by (simp add: ReadTuples_listing accessQuery_def sampleDeps_def getterOf_def readerModel_def)
  have 7: "tuplesToPlan sampleDeps [tupleOf ''bogus'', tupleOf ''user-bob''] []
            = (zeroModel\<lparr>Users := [''bob'']\<rparr>,
               [ErrorDiagnostic ''failed to parse relation tag''
                  ''error parsing bogus:bogus is not a valid tag''])"
    by (simp add: tuplesToPlan_def NewSetValueFrom_def HasError_def sampleDeps_def tupleOf_def
          sample_ParseTag_def AddError_def UserTagKind_def sample_IsValidServiceAccountId_def
          zeroModel_def)
  have e: "HasError [ErrorDiagnostic ''failed to parse relation tag''
                  ''error parsing bogus:bogus is not a valid tag'']"
    by (simp add: HasError_def)
  have "Read (sampleResource ?C) sampleDeps ?g emptyResponse []
     = Some (emptyResponse\<lparr>Diagnostics :=
                [ErrorDiagnostic ''failed to parse relation tag''
                   ''error parsing bogus:bogus is not a valid tag'']\<rparr>,
             [CallConnect [],
              CallListRelationshipTuples \<lparr>ReqTuple = accessQuery, ReqContinuationToken = []\<rparr>])"
    using n e by (simp add: Read_def Let_def 1 d 3 4 7)
  then show ?thesis by (simp add: emptyResponse_def)
qed

text \<open>
  Claim C7 as amended. When the listing holds a malformed tuple, \<open>tuplesToPlan\<close> converts
  the other tuples as if the malformed ones were not there and records the error
  diagnostic of the malformed tuple; \<open>Read\<close> then returns with these diagnostics and
  stores no state.
\<close>

theorem Read_malformed_tuple:
  assumes cl: "client a = Some C"
    and d1: "\<not> HasError (diags_Append (Diagnostics resp) (Get_diags req_State))"
    and ti: "targetInfo a req_State (diags_Append (Diagnostics resp) (Get_diags req_State))
               = (targetID, d)"
    and d2: "\<not> HasError d"
    and rd: "ReadTuples C h \<lparr>Object = [], Relation = String_of X (Access (Get_model req_State)),
               TargetObject = targetID\<rparr> = Some (Inr tuples, h1)"
    and t: "t \<in> set tuples" "malformed X t"
  shows "fst (tuplesToPlan X tuples d)
           = fst (tuplesToPlan X (filter (\<lambda>t. \<not> malformed X t) tuples) d)
       \<and> parseDiagnostic X t \<in> set (snd (tuplesToPlan X tuples d))
       \<and> HasError (snd (tuplesToPlan X tuples d))
       \<and> Read a X req_State resp h
           = Some (resp\<lparr>Diagnostics := snd (tuplesToPlan X tuples d)\<rparr>, h1)"
proof -
  have m: "parseDiagnostic X t \<in> set (snd (tuplesToPlan X tuples d))"
    using t by (auto simp: set_snd_tuplesToPlan)
  then have e: "HasError (snd (tuplesToPlan X tuples d))"
    using isError_parseDiagnostic by (auto simp: HasError_iff)
  have r: "Read a X req_State resp h
           = Some (resp\<lparr>Diagnostics := snd (tuplesToPlan X tuples d)\<rparr>, h1)"
  proof (cases "tuplesToPlan X tuples d")
    case (Pair newState d3)
    with cl d1 ti d2 rd e show ?thesis by (simp add: Read_def Let_def)
  qed
  show ?thesis using tuplesToPlan_fst_filter m e r by blast
qed

theorem Read_malformed_tuple_witness:
  "Read (sampleResource (listingController [tupleOf ''bogus'', tupleOf ''user-bob'']))
      sampleDeps (getterOf (readerModel [])) emptyResponse []
     = Some (emptyResponse\<lparr>Diagnostics :=
               [ErrorDiagnostic ''failed to parse relation tag''
                  ''error parsing bogus:bogus is not a valid tag'']\<rparr>,
             [CallConnect [],
              CallListRelationshipTuples \<lparr>ReqTuple = accessQuery, ReqContinuationToken = []\<rparr>])
 \<and> Users (fst (tuplesToPlan sampleDeps [tupleOf ''bogus'', tupleOf ''user-bob''] [])) = [''bob'']"
proof -
  let ?C = "listingController [tupleOf ''bogus'', tupleOf ''user-bob'']"
  let ?g = "getterOf (readerModel [])"
  have n: "\<not> HasError []" by (simp add: HasError_def)
  have 1: "client (sampleResource ?C) = Some ?C"
    by (simp add: sampleResource_def)
  have d: "diags_Append (Diagnostics emptyResponse) (Get_diags ?g) = []"
    by (simp add: emptyResponse_def getterOf_def)
  have 2: "\<not> HasError (diags_Append (Diagnostics emptyResponse) (Get_diags ?g))"
    using n d by simp
  have 3: "targetInfo (sampleResource ?C) ?g (diags_Append (Diagnostics emptyResponse) (Get_diags ?g))
             = (TargetObject accessQuery, [])"
    by (simp add: emptyResponse_def sampleResource_def modelInfo_Identity_def getterOf_def
          sampleDeps_def accessQuery_def)
  have 4: "ReadTuples ?C [] \<lparr>Object = [], Relation = String_of sampleDeps (Access (Get_model ?g)),
              TargetObject = TargetObject accessQuery\<rparr>
            = Some (Inr [tupleOf ''bogus'', tupleOf ''user-bob''],
                    [CallConnect [],
                     CallListRelationshipTuples \<lparr>ReqTuple = accessQuery, ReqContinuationToken = []\<rparr>])"
    by (simp add: ReadTuples_listing accessQuery_def sampleDeps_def getterOf_def readerModel_def)
  have 5: "tupleOf ''bogus'' \<in> set [tupleOf ''bogus'', tupleOf ''user-bob'']" by simp
  have 6: "malformed sampleDeps (tupleOf ''bogus'')"
    by (simp add: malformed_def sampleDeps_def tupleOf_def sample_ParseTag_def)
  have 7: "tuplesToPlan sampleDeps [tupleOf ''bogus'', tupleOf ''user-bob''] []
            = (zeroModel\<lparr>Users := [''bob'']\<rparr>,
               [ErrorDiagnostic ''failed to parse relation tag''
                  ''error parsing bogus:bogus is not a valid tag''])"
    by (simp add: tuplesToPlan_def NewSetValueFrom_def HasError_def sampleDeps_def tupleOf_def
          sample_ParseTag_def AddError_def UserTagKind_def sample_IsValidServiceAccountId_def
          zeroModel_def)
  note r = Read_malformed_tuple[OF 1 2 3 n 4 5 6, THEN conjunct2, THEN conjunct2, THEN conjunct2]
  show ?thesis
    using r by (simp add: 7)
qed

section \<open>The pages of a listing\<close>

lemma ReadTuples_loop_pages:
  "pages C h req rs \<Longrightarrow>
   ReadTuples_loop C h req acc =
     Some (Inr (acc @ concat (map Tuples rs)),
           h @ map CallListRelationshipTuples (pageRequests req rs))"
proof (induction arbitrary: acc rule: pages.induct)
  case (last_page C h req r)
  then show ?case by (subst ReadTuples_loop.simps) simp
next
  case (next_page C h req r rs)
  show ?case
    by (subst ReadTuples_loop.simps) (simp add: next_page.hyps next_page.IH)
qed

lemma ReadTuples_loop_Inr:
  assumes "ReadTuples_loop C h req acc = Some y"
  shows "\<forall>ts h'. y = (Inr ts, h') \<longrightarrow>
      (\<exists>rs. pages C h req rs \<and> ts = acc @ concat (map Tuples rs)
          \<and> h' = h @ map CallListRelationshipTuples (pageRequests req rs))"
proof (rule ReadTuples_loop.raw_induct
    [where P = "\<lambda>C h req acc y. \<forall>ts h'. y = (Inr ts, h') \<longrightarrow>
      (\<exists>rs. pages C h req rs \<and> ts = acc @ concat (map Tuples rs)
          \<and> h' = h @ map CallListRelationshipTuples (pageRequests req rs))", OF _ assms])
  fix loop C h req acc y
  assume 1: "\<And>h req tuples b y. loop h req tuples b = Some y \<Longrightarrow>
      \<forall>ts h'. y = (Inr ts, h') \<longrightarrow>
      (\<exists>rs. pages h req tuples rs \<and> ts = b @ concat (map Tuples rs)
          \<and> h' = req @ map CallListRelationshipTuples (pageRequests tuples rs))"
     "(case ListRelationshipTuples C h req of
      Inl err \<Rightarrow> Some (Inl err, h @ [CallListRelationshipTuples req])
      | Inr response \<Rightarrow>
          if Errors response \<noteq> []
          then Some (Inl (hd (Errors response)), h @ [CallListRelationshipTuples req])
          else if ContinuationToken response = []
               then Some (Inr (acc @ Tuples response), h @ [CallListRelationshipTuples req])
               else loop C (h @ [CallListRelationshipTuples req])
                     (req\<lparr>ReqContinuationToken := ContinuationToken response\<rparr>)
                     (acc @ Tuples response)) = Some y"
  show "\<forall>ts h'. y = (Inr ts, h') \<longrightarrow>
      (\<exists>rs. pages C h req rs \<and> ts = acc @ concat (map Tuples rs)
          \<and> h' = h @ map CallListRelationshipTuples (pageRequests req rs))"
  proof (intro allI impI)
    fix ts h'
    assume y: "y = (Inr ts, h')"
    show "\<exists>rs. pages C h req rs \<and> ts = acc @ concat (map Tuples rs)
          \<and> h' = h @ map CallListRelationshipTuples (pageRequests req rs)"
    proof (cases "ListRelationshipTuples C h req")
      case (Inl err)
      with 1(2) y show ?thesis by simp
    next
      case (Inr r)
      show ?thesis
      proof (cases "Errors r = []")
        case False
        with 1(2) y Inr show ?thesis by simp
      next
        case noerr: True
        show ?thesis
        proof (cases "ContinuationToken r = []")
          case True
          with 1(2) y Inr noerr have "ts = acc @ Tuples r"
            "h' = h @ [CallListRelationshipTuples req]" by simp_all
          moreover have "pages C h req [r]"
            using Inr noerr True by (rule pages.last_page)
          ultimately show ?thesis
            by (intro exI[of _ "[r]"]) simp
        next
          case False
          with 1(2) y Inr noerr
          have rec: "loop C (h @ [CallListRelationshipTuples req])
                  (req\<lparr>ReqContinuationToken := ContinuationToken r\<rparr>) (acc @ Tuples r)
                = Some (Inr ts, h')" by simp
          from 1(1)[OF rec] obtain rs where
            rs: "pages C (h @ [CallListRelationshipTuples req])
                   (req\<lparr>ReqContinuationToken := ContinuationToken r\<rparr>) rs"
            "ts = (acc @ Tuples r) @ concat (map Tuples rs)"
            "h' = (h @ [CallListRelationshipTuples req]) @ map CallListRelationshipTuples
                    (pageRequests (req\<lparr>ReqContinuationToken := ContinuationToken r\<rparr>) rs)"
            by blast
          have "pages C h req (r # rs)"
            using Inr noerr False rs(1) by (rule pages.next_page)
          then show ?thesis using rs(2,3)
            by (intro exI[of _ "r # rs"]) simp
        qed
      qed
    qed
  qed
qed

text \<open>
  Claim C3. With a connection, \<open>ReadTuples\<close> returns tuples exactly when the listing has
  pages that end with an empty continuation token: each request after the first
  carries the token of the response before, and the result is the concatenation of the
  tuples of all pages. In particular it returns whenever the pages end, and it never
  returns the tuples of a part of the pages.
\<close>

theorem ReadTuples_all_pages:
  assumes "Connect C h [] = None"
  shows "ReadTuples C h tuple = Some (Inr ts, h') \<longleftrightarrow>
     (\<exists>rs. pages C (h @ [CallConnect []]) \<lparr>ReqTuple = tuple, ReqContinuationToken = []\<rparr> rs
        \<and> ts = concat (map Tuples rs)
        \<and> h' = h @ CallConnect [] # map CallListRelationshipTuples
                 (pageRequests \<lparr>ReqTuple = tuple, ReqContinuationToken = []\<rparr> rs))"
proof
  assume "ReadTuples C h tuple = Some (Inr ts, h')"
  then have "ReadTuples_loop C (h @ [CallConnect []])
     \<lparr>ReqTuple = tuple, ReqContinuationToken = []\<rparr> [] = Some (Inr ts, h')"
    using assms by (simp add: ReadTuples_def GetConnection_nil_def)
  from ReadTuples_loop_Inr[OF this] show "\<exists>rs. pages C (h @ [CallConnect []]) \<lparr>ReqTuple = tuple, ReqContinuationToken = []\<rparr> rs
        \<and> ts = concat (map Tuples rs)
        \<and> h' = h @ CallConnect [] # map CallListRelationshipTuples
                 (pageRequests \<lparr>ReqTuple = tuple, ReqContinuationToken = []\<rparr> rs)"
    by simp
next
  assume "\<exists>rs. pages C (h @ [CallConnect []]) \<lparr>ReqTuple = tuple, ReqContinuationToken = []\<rparr> rs
        \<and> ts = concat (map Tuples rs)
        \<and> h' = h @ CallConnect [] # map CallListRelationshipTuples
                 (pageRequests \<lparr>ReqTuple = tuple, ReqContinuationToken = []\<rparr> rs)"
  then obtain rs where rs: "pages C (h @ [CallConnect []]) \<lparr>ReqTuple = tuple, ReqContinuationToken = []\<rparr> rs"
        "ts = concat (map Tuples rs)"
        "h' = h @ CallConnect [] # map CallListRelationshipTuples
                 (pageRequests \<lparr>ReqTuple = tuple, ReqContinuationToken = []\<rparr> rs)"
    by blast
  show "ReadTuples C h tuple = Some (Inr ts, h')"
    using assms ReadTuples_loop_pages[OF rs(1), of "[]"] rs(2,3)
    by (simp add: ReadTuples_def GetConnection_nil_def)
qed

theorem ReadTuples_all_pages_witness:
  "ReadTuples pagedController [] accessQuery
     = Some (Inr [tupleOf ''user-alice'', tupleOf ''user-bob'', tupleOf ''user-carol'',
                  tupleOf ''group-admins'', tupleOf ''user-dave@serviceaccount''],
             [CallConnect [],
              CallListRelationshipTuples \<lparr>ReqTuple = accessQuery, ReqContinuationToken = []\<rparr>,
              CallListRelationshipTuples \<lparr>ReqTuple = accessQuery, ReqContinuationToken = ''a''\<rparr>,
              CallListRelationshipTuples \<lparr>ReqTuple = accessQuery, ReqContinuationToken = ''b''\<rparr>])"
proof -
  let ?q = "\<lparr>ReqTuple = accessQuery, ReqContinuationToken = []\<rparr>"
  have c: "Connect pagedController [] [] = None"
    by (simp add: pagedController_def okController_def)
  have p3: "pages pagedController
              ([] @ [CallConnect []] @ [CallListRelationshipTuples ?q]
                 @ [CallListRelationshipTuples (?q\<lparr>ReqContinuationToken := ''a''\<rparr>)])
              (?q\<lparr>ReqContinuationToken := ''b''\<rparr>) [page3]"
    by (rule pages.last_page) (simp_all add: pagedController_def page3_def)
  have p2: "pages pagedController ([] @ [CallConnect []] @ [CallListRelationshipTuples ?q])
              (?q\<lparr>ReqContinuationToken := ''a''\<rparr>) [page2, page3]"
    apply (rule pages.next_page[where r = page2])
    using p3 by (simp_all add: pagedController_def page2_def)
  have p1: "pages pagedController ([] @ [CallConnect []]) ?q [page1, page2, page3]"
    apply (rule pages.next_page[where r = page1])
    using p2 by (simp_all add: pagedController_def page1_def)
  have "\<exists>rs. pages pagedController ([] @ [CallConnect []]) ?q rs
          \<and> concat (map Tuples [page1, page2, page3]) = concat (map Tuples rs)
          \<and> [] @ CallConnect [] # map CallListRelationshipTuples (pageRequests ?q [page1, page2, page3])
              = [] @ CallConnect [] # map CallListRelationshipTuples (pageRequests ?q rs)"
    using p1 by blast
  then have "ReadTuples pagedController [] accessQuery
      = Some (Inr (concat (map Tuples [page1, page2, page3])),
              [] @ CallConnect [] # map CallListRelationshipTuples (pageRequests ?q [page1, page2, page3]))"
    using ReadTuples_all_pages[OF c, of accessQuery] by blast
  then show ?thesis
    by (simp add: page1_def page2_def page3_def)
qed

section \<open>The UUID of a model\<close>

text \<open>
  Claim C8. When the first lookup finds the model, \<open>ModelUUID\<close> returns its UUID, sends
  nothing and leaves the cache as it is. When it misses, \<open>ModelUUID\<close> fills the cache
  once (one connection and, if it is made, one request for the model summaries) and
  returns the error of a failed fill; after a fill it looks the name up once more in
  the filled cache and returns the UUID found or the error of that lookup.
\<close>

theorem ModelUUID_refill_then_retry:
  "(Lookup M (modelCache sc) n = Inr m \<longrightarrow> ModelUUID C M sc h n = (Inr (UUID m), sc, h))
 \<and> (Lookup M (modelCache sc) n = Inl e \<longrightarrow>
      (Connect C h [] = Some err \<longrightarrow>
         ModelUUID C M sc h n = (Inl err, sc, h @ [CallConnect []]))
    \<and> (Connect C h [] = None \<longrightarrow>
         (ListModelSummaries C (h @ [CallConnect []]) = Inl err \<longrightarrow>
            ModelUUID C M sc h n = (Inl err, sc, h @ [CallConnect [], CallListModelSummaries]))
       \<and> (ListModelSummaries C (h @ [CallConnect []]) = Inr ms \<longrightarrow>
            ModelUUID C M sc h n =
              (case Lookup M (FillCache M (modelCache sc) ms) n of
                 Inl err' \<Rightarrow> Inl err'
               | Inr m' \<Rightarrow> Inr (UUID m'),
               sc\<lparr>modelCache := FillCache M (modelCache sc) ms\<rparr>,
               h @ [CallConnect [], CallListModelSummaries]))))"
  by (auto simp: ModelUUID_def fillModelCache_def GetConnection_nil_def split: sum.splits)

theorem ModelUUID_refill_then_retry_witness:
  "ModelUUID (modelsController [devSummary]) listCache (NewClient listCache sampleConfig) [] ''dev''
     = (Inr ''uuid-dev'',
        (NewClient listCache sampleConfig)
          \<lparr>modelCache := [\<lparr>Name = ''dev'', Owner = ''admin'', UUID = ''uuid-dev'',
                            ModelType = ''iaas''\<rparr>]\<rparr>,
        [CallConnect [], CallListModelSummaries])
 \<and> ModelUUID (modelsController [devSummary]) listCache (NewClient listCache sampleConfig) [] ''prod''
     = (Inl ''model prod not found'',
        (NewClient listCache sampleConfig)
          \<lparr>modelCache := [\<lparr>Name = ''dev'', Owner = ''admin'', UUID = ''uuid-dev'',
                            ModelType = ''iaas''\<rparr>]\<rparr>,
        [CallConnect [], CallListModelSummaries])
 \<and> ModelUUID downController listCache (NewClient listCache sampleConfig) [] ''dev''
     = (Inl ''connection refused'', NewClient listCache sampleConfig, [CallConnect []])
 \<and> ModelUUID downController listCache
       ((NewClient listCache sampleConfig)
          \<lparr>modelCache := [\<lparr>Name = ''dev'', Owner = ''admin'', UUID = ''uuid-dev'',
                            ModelType = ''iaas''\<rparr>]\<rparr>) [] ''dev''
     = (Inr ''uuid-dev'',
        (NewClient listCache sampleConfig)
          \<lparr>modelCache := [\<lparr>Name = ''dev'', Owner = ''admin'', UUID = ''uuid-dev'',
                            ModelType = ''iaas''\<rparr>]\<rparr>, [])"
proof -
  let ?sc = "NewClient listCache sampleConfig"
  let ?dev = "\<lparr>Name = ''dev'', Owner = ''admin'', UUID = ''uuid-dev'', ModelType = ''iaas''\<rparr>"
  have miss: "Lookup listCache (modelCache ?sc) ''dev'' = Inl ''model dev not found''"
             "Lookup listCache (modelCache ?sc) ''prod'' = Inl ''model prod not found''"
    by (simp_all add: listCache_def NewClient_def)
  have hit: "Lookup listCache (modelCache (?sc\<lparr>modelCache := [?dev]\<rparr>)) ''dev'' = Inr ?dev"
    by (simp add: listCache_def)
  have up: "Connect (modelsController [devSummary]) [] [] = None"
           "ListModelSummaries (modelsController [devSummary]) ([] @ [CallConnect []])
              = Inr [devSummary]"
    by (simp_all add: modelsController_def okController_def)
  have down: "Connect downController [] [] = Some ''connection refused''"
    by (simp add: downController_def okController_def)
  have fill: "FillCache listCache (modelCache ?sc) [devSummary] = [?dev]"
    by (simp add: listCache_def devSummary_def)
  have l1: "Lookup listCache [?dev] ''dev'' = Inr ?dev"
           "Lookup listCache [?dev] ''prod'' = Inl ''model prod not found''"
    by (simp_all add: listCache_def)
  note t1 = ModelUUID_refill_then_retry
     [of listCache ?sc "''dev''" _ "modelsController [devSummary]" "[]" "''model dev not found''"
         _ "[devSummary]"]
  note t2 = ModelUUID_refill_then_retry
     [of listCache ?sc "''prod''" _ "modelsController [devSummary]" "[]" "''model prod not found''"
         _ "[devSummary]"]
  note t3 = ModelUUID_refill_then_retry
     [of listCache ?sc "''dev''" _ downController "[]" "''model dev not found''"
         "''connection refused''"]
  note t4 = ModelUUID_refill_then_retry
     [of listCache "?sc\<lparr>modelCache := [?dev]\<rparr>" "''dev''" ?dev downController "[]"]
  show ?thesis
    using t1 t2 t3 t4 miss hit up down by (simp add: fill l1)
qed

section \<open>The JAAS check\<close>

text \<open>
  Claim C9. The call of \<open>IsJAAS\<close> that runs the check returns true when the connection
  is made and \<open>ListControllers\<close> succeeds, and the default value of the caller when
  either fails; its result is a boolean and carries no error. For the client that
  \<open>NewClient\<close> makes, the default is whether the configuration has a client id and a
  client secret.
\<close>

theorem IsJAAS_probe_or_default:
  "(\<not> checkJAASOnce sc \<longrightarrow>
      fst (IsJAAS C sc h defaultVal)
        = (if Connect C h [] = None \<and> ListControllers C (h @ [CallConnect []]) = None
           then True else defaultVal))
 \<and> fst (Client_IsJAAS C (NewClient M config) h)
        = (if Connect C h [] = None \<and> ListControllers C (h @ [CallConnect []]) = None
           then True else (ClientID config \<noteq> [] \<and> ClientSecret config \<noteq> []))"
  by (auto simp: IsJAAS_def Client_IsJAAS_def NewClient_def defaultJAASCheck_def
        GetConnection_nil_def Let_def split: option.splits)

theorem IsJAAS_probe_or_default_witness:
  "fst (IsJAAS okController (NewClient listCache sampleConfig) [] False) = True
 \<and> fst (IsJAAS downController (NewClient listCache sampleConfig) [] False) = False
 \<and> fst (IsJAAS downController (NewClient listCache sampleConfig) [] True) = True"
proof -
  have n: "\<not> checkJAASOnce (NewClient listCache sampleConfig)"
    by (simp add: NewClient_def)
  have c: "Connect okController [] [] = None" "ListControllers okController ([] @ [CallConnect []]) = None"
          "Connect downController [] [] \<noteq> None"
    by (simp_all add: okController_def downController_def)
  note p = IsJAAS_probe_or_default [THEN conjunct1, rule_format, OF n]
  show ?thesis
    using p[of okController "[]" False] p[of downController "[]" False]
      p[of downController "[]" True] c by simp
qed

section \<open>Concurrent callers of the JAAS check\<close>

lemma inv_initial: "once_inv initial"
  by (simp add: once_inv_def initial_def)

lemma inside_running:
  assumes "once_inv (s, pcs)" and "pcs t \<noteq> Start" "pcs t \<noteq> ReadFlag" "\<And>b. pcs t \<noteq> Returned b"
  shows "onceState s = Running \<and> insideDo (pcs t) (hist s) \<and> (\<forall>u. u \<noteq> t \<longrightarrow> pcs u = Start)"
proof (cases "onceState s")
  case NotRun
  with assms show ?thesis by (simp add: once_inv_def)
next
  case Done
  with assms(1) have "pcs t = Start \<or> pcs t = ReadFlag \<or> pcs t = Returned (flag s)"
    by (simp add: once_inv_def)
  with assms show ?thesis by blast
next
  case Running
  with assms(1) obtain ta where ta: "insideDo (pcs ta) (hist s)" "\<forall>u. u \<noteq> ta \<longrightarrow> pcs u = Start"
    by (auto simp: once_inv_def)
  have "ta = t" using ta(2) assms(2) by auto
  with ta Running show ?thesis by simp
qed

lemma inv_RunningI:
  "onceState s = Running \<Longrightarrow> insideDo (pcs t) (hist s) \<Longrightarrow> (\<forall>u. u \<noteq> t \<longrightarrow> pcs u = Start)
   \<Longrightarrow> once_inv (s, pcs)"
  by (auto simp: once_inv_def)

lemma inv_step: "step C defaultVal st st' \<Longrightarrow> once_inv st \<Longrightarrow> once_inv st'"
proof (induction rule: step.induct)
  case (enter pcs t s)
  then show ?case by (auto simp: once_inv_def)
next
  case (skip pcs t s)
  then show ?case by (auto simp: once_inv_def)
next
  case (set_default pcs t s)
  from inside_running[OF set_default(2), of t] set_default(1)
  have r: "onceState s = Running" "hist s = []" "\<forall>u. u \<noteq> t \<longrightarrow> pcs u = Start" by simp_all
  show ?case by (rule inv_RunningI[where t = t]) (use r in simp_all)
next
  case (dial_error pcs t s err)
  from inside_running[OF dial_error(3), of t] dial_error(1)
  have r: "onceState s = Running" "hist s = []" "\<forall>u. u \<noteq> t \<longrightarrow> pcs u = Start" by simp_all
  show ?case by (rule inv_RunningI[where t = t]) (use r in simp_all)
next
  case (dial_ok pcs t s)
  from inside_running[OF dial_ok(3), of t] dial_ok(1)
  have r: "onceState s = Running" "hist s = []" "\<forall>u. u \<noteq> t \<longrightarrow> pcs u = Start" by simp_all
  show ?case by (rule inv_RunningI[where t = t]) (use r in simp_all)
next
  case (probe_error pcs t s err)
  from inside_running[OF probe_error(3), of t] probe_error(1)
  have r: "onceState s = Running" "hist s = [CallConnect []]" "\<forall>u. u \<noteq> t \<longrightarrow> pcs u = Start"
    by simp_all
  show ?case by (rule inv_RunningI[where t = t]) (use r in simp_all)
next
  case (probe_ok pcs t s)
  from inside_running[OF probe_ok(3), of t] probe_ok(1)
  have r: "onceState s = Running" "hist s = [CallConnect []]" "\<forall>u. u \<noteq> t \<longrightarrow> pcs u = Start"
    by simp_all
  show ?case by (rule inv_RunningI[where t = t]) (use r in simp_all)
next
  case (set_true pcs t s)
  from inside_running[OF set_true(2), of t] set_true(1)
  have r: "onceState s = Running" "hist s = [CallConnect [], CallListControllers]"
    "\<forall>u. u \<noteq> t \<longrightarrow> pcs u = Start" by simp_all
  show ?case by (rule inv_RunningI[where t = t]) (use r in simp_all)
next
  case (finish pcs t s)
  from inside_running[OF finish(2), of t] finish(1)
  have r: "hist s = [CallConnect []] \<or> hist s = [CallConnect [], CallListControllers]"
    "\<forall>u. u \<noteq> t \<longrightarrow> pcs u = Start" by simp_all
  then show ?case by (auto simp: once_inv_def probes_def)
next
  case (read_flag pcs t s)
  have "onceState s = Done"
  proof (cases "onceState s")
    case NotRun
    with read_flag show ?thesis by (simp add: once_inv_def)
  next
    case Running
    with read_flag(2) obtain ta where ta: "insideDo (pcs ta) (hist s)"
      "\<forall>u. u \<noteq> ta \<longrightarrow> pcs u = Start" by (auto simp: once_inv_def)
    have "ta = t" using ta(2) read_flag(1) by auto
    with ta(1) read_flag(1) show ?thesis by simp
  qed simp
  with read_flag show ?case by (auto simp: once_inv_def)
qed

lemma reachable_inv: "reachable C defaultVal st \<Longrightarrow> once_inv st"
  by (induction rule: reachable.induct) (auto intro: inv_initial inv_step)

text \<open>
  The steps refine the method: a caller that runs alone, from a state in which the
  function has not started or has finished, returns the result of \<open>IsJAAS\<close> and leaves
  its flag and its requests.
\<close>

lemma steps_trans:
  "rtranclp (step C d) x y \<Longrightarrow> step C d y z \<Longrightarrow> rtranclp (step C d) x z"
  by (rule rtranclp.rtrancl_into_rtrancl)

lemma IsJAAS_as_steps:
  assumes st: "pcs t = Start"
    and o: "onceState s = (if checkJAASOnce sc then Done else NotRun)"
    and f: "flag s = isJAAS sc"
  shows "\<exists>s'. rtranclp (step C defaultVal) (s, pcs)
                (s', pcs(t := Returned (fst (IsJAAS C sc (hist s) (defaultVal t)))))
          \<and> onceState s' = Done
          \<and> flag s' = isJAAS (fst (snd (IsJAAS C sc (hist s) (defaultVal t))))
          \<and> hist s' = snd (snd (IsJAAS C sc (hist s) (defaultVal t)))"
proof (cases "checkJAASOnce sc")
  case True
  with o have d: "onceState s = Done" by simp
  have 1: "step C defaultVal (s, pcs) (s, pcs(t := ReadFlag))"
    using st d by (rule step.skip)
  have 2: "step C defaultVal (s, pcs(t := ReadFlag)) (s, (pcs(t := ReadFlag))(t := Returned (flag s)))"
    by (rule step.read_flag) simp
  have "rtranclp (step C defaultVal) (s, pcs) (s, pcs(t := Returned (flag s)))"
    using 1 2 by (simp add: rtranclp.rtrancl_into_rtrancl r_into_rtranclp)
  then show ?thesis
    using True d f by (intro exI[of _ s]) (simp add: IsJAAS_def)
next
  case False
  with o have n: "onceState s = NotRun" by simp
  let ?s1 = "s\<lparr>onceState := Running\<rparr>"
  let ?s2 = "?s1\<lparr>flag := defaultVal t\<rparr>"
  let ?s3 = "?s2\<lparr>hist := hist s @ [CallConnect []]\<rparr>"
  have 1: "step C defaultVal (s, pcs) (?s1, pcs(t := SetDefault))"
    using st n by (rule step.enter)
  have 2: "step C defaultVal (?s1, pcs(t := SetDefault)) (?s2, pcs(t := Dial))"
    using step.set_default[of "pcs(t := SetDefault)" t C defaultVal ?s1] by simp
  have r2: "rtranclp (step C defaultVal) (s, pcs) (?s2, pcs(t := Dial))"
    using 1 2 by (simp add: rtranclp.rtrancl_into_rtrancl r_into_rtranclp)
  show ?thesis
  proof (cases "Connect C (hist s) []")
    case (Some err)
    have 3: "step C defaultVal (?s2, pcs(t := Dial)) (?s3, pcs(t := Finish))"
      using step.dial_error[of "pcs(t := Dial)" t C ?s2 err defaultVal] Some by simp
    have 4: "step C defaultVal (?s3, pcs(t := Finish)) (?s3\<lparr>onceState := Done\<rparr>, pcs(t := ReadFlag))"
      using step.finish[of "pcs(t := Finish)" t C defaultVal ?s3] by simp
    have 5: "step C defaultVal (?s3\<lparr>onceState := Done\<rparr>, pcs(t := ReadFlag))
               (?s3\<lparr>onceState := Done\<rparr>, pcs(t := Returned (defaultVal t)))"
      using step.read_flag[of "pcs(t := ReadFlag)" t C defaultVal "?s3\<lparr>onceState := Done\<rparr>"]
      by simp
    have "rtranclp (step C defaultVal) (s, pcs)
            (?s3\<lparr>onceState := Done\<rparr>, pcs(t := Returned (defaultVal t)))"
      using r2 3 4 5 by (meson steps_trans)
    then show ?thesis
      using False Some
      by (intro exI[of _ "?s3\<lparr>onceState := Done\<rparr>"])
         (simp add: IsJAAS_def GetConnection_nil_def Let_def)
  next
    case None
    have 3: "step C defaultVal (?s2, pcs(t := Dial)) (?s3, pcs(t := Probe))"
      using step.dial_ok[of "pcs(t := Dial)" t C ?s2 defaultVal] None by simp
    let ?s4 = "?s3\<lparr>hist := hist s @ [CallConnect [], CallListControllers]\<rparr>"
    show ?thesis
    proof (cases "ListControllers C (hist s @ [CallConnect []])")
      case (Some err)
      have 4: "step C defaultVal (?s3, pcs(t := Probe)) (?s4, pcs(t := Finish))"
        using step.probe_error[of "pcs(t := Probe)" t C ?s3 err defaultVal] Some by simp
      have 5: "step C defaultVal (?s4, pcs(t := Finish)) (?s4\<lparr>onceState := Done\<rparr>, pcs(t := ReadFlag))"
        using step.finish[of "pcs(t := Finish)" t C defaultVal ?s4] by simp
      have 6: "step C defaultVal (?s4\<lparr>onceState := Done\<rparr>, pcs(t := ReadFlag))
                 (?s4\<lparr>onceState := Done\<rparr>, pcs(t := Returned (defaultVal t)))"
        using step.read_flag[of "pcs(t := ReadFlag)" t C defaultVal "?s4\<lparr>onceState := Done\<rparr>"]
        by simp
      have "rtranclp (step C defaultVal) (s, pcs)
              (?s4\<lparr>onceState := Done\<rparr>, pcs(t := Returned (defaultVal t)))"
        using r2 3 4 5 6 by (meson steps_trans)
      then show ?thesis
        using False None Some
        by (intro exI[of _ "?s4\<lparr>onceState := Done\<rparr>"])
           (simp add: IsJAAS_def GetConnection_nil_def Let_def)
    next
      case none: None
      let ?s5 = "?s4\<lparr>flag := True\<rparr>"
      have 4: "step C defaultVal (?s3, pcs(t := Probe)) (?s4, pcs(t := SetTrue))"
        using step.probe_ok[of "pcs(t := Probe)" t C ?s3 defaultVal] none by simp
      have 5: "step C defaultVal (?s4, pcs(t := SetTrue)) (?s5, pcs(t := Finish))"
        using step.set_true[of "pcs(t := SetTrue)" t C defaultVal ?s4] by simp
      have 6: "step C defaultVal (?s5, pcs(t := Finish)) (?s5\<lparr>onceState := Done\<rparr>, pcs(t := ReadFlag))"
        using step.finish[of "pcs(t := Finish)" t C defaultVal ?s5] by simp
      have 7: "step C defaultVal (?s5\<lparr>onceState := Done\<rparr>, pcs(t := ReadFlag))
                 (?s5\<lparr>onceState := Done\<rparr>, pcs(t := Returned True))"
        using step.read_flag[of "pcs(t := ReadFlag)" t C defaultVal "?s5\<lparr>onceState := Done\<rparr>"]
        by simp
      have "rtranclp (step C defaultVal) (s, pcs)
              (?s5\<lparr>onceState := Done\<rparr>, pcs(t := Returned True))"
        using r2 3 4 5 6 7 by (meson steps_trans)
      then show ?thesis
        using False None none
        by (intro exI[of _ "?s5\<lparr>onceState := Done\<rparr>"])
           (simp add: IsJAAS_def GetConnection_nil_def Let_def)
    qed
  qed
qed

lemma reachable_steps:
  "rtranclp (step C d) st st' \<Longrightarrow> reachable C d st \<Longrightarrow> reachable C d st'"
  by (induction rule: rtranclp.induct) (auto intro: reachable.reach_step)

text \<open>
  Claim C10. In every state that any number of callers of \<open>IsJAAS\<close> can reach, in any
  interleaving of their steps and whatever the controller answers, the capability
  probe has been sent at most once, and any two callers that have returned have
  returned the same value, the memoized flag, after the function of the \<open>sync.Once\<close> has
  finished; a probe or a connection that failed is not tried again.
\<close>

theorem IsJAAS_callers_agree:
  assumes "reachable C defaultVal (s, pcs)"
  shows "probes (hist s) \<le> 1
       \<and> (pcs t = Returned a \<and> pcs u = Returned b \<longrightarrow> a = b \<and> a = flag s \<and> onceState s = Done)"
proof -
  have i: "once_inv (s, pcs)" using assms by (rule reachable_inv)
  show ?thesis
  proof (cases "onceState s")
    case NotRun
    with i show ?thesis by (simp add: once_inv_def probes_def)
  next
    case Running
    with i obtain ta where ta: "insideDo (pcs ta) (hist s)" "\<forall>u. u \<noteq> ta \<longrightarrow> pcs u = Start"
      by (auto simp: once_inv_def)
    have p: "probes (hist s) \<le> 1"
      using ta(1) by (cases "pcs ta") (auto simp: probes_def)
    have "pcs t \<noteq> Returned a"
      using ta by (cases "t = ta") auto
    with p show ?thesis by simp
  next
    case Done
    with i have d: "\<forall>t. pcs t = Start \<or> pcs t = ReadFlag \<or> pcs t = Returned (flag s)"
      "probes (hist s) \<le> 1" by (simp_all add: once_inv_def)
    from d(1) have "pcs t = Returned a \<Longrightarrow> a = flag s" "pcs u = Returned b \<Longrightarrow> b = flag s"
      by (metis pc.distinct(13,55) pc.inject)+
    with d(2) Done show ?thesis by auto
  qed
qed

lemma reachable_bothReturned: "reachable downController defaultOfFirst bothReturned"
proof -
  let ?R = "reachable downController defaultOfFirst"
  let ?S = "step downController defaultOfFirst"
  let ?p = "\<lambda>t::nat. Start"
  let ?s0 = "\<lparr>onceState = NotRun, flag = False, hist = []\<rparr>"
  have r0: "?R (?s0, ?p)"
    using reachable.reach_init[of downController defaultOfFirst] by (simp add: initial_def)
  have "?S (?s0, ?p) (?s0\<lparr>onceState := Running\<rparr>, ?p(0 := SetDefault))"
    by (rule step.enter) simp_all
  with r0 have r1: "?R (\<lparr>onceState = Running, flag = False, hist = []\<rparr>, ?p(0 := SetDefault))"
    using reachable.reach_step by fastforce
  have "?S (\<lparr>onceState = Running, flag = False, hist = []\<rparr>, ?p(0 := SetDefault))
           (\<lparr>onceState = Running, flag = False, hist = []\<rparr>\<lparr>flag := defaultOfFirst 0\<rparr>,
            (?p(0 := SetDefault))(0 := Dial))"
    by (rule step.set_default) simp
  with r1 have r2: "?R (\<lparr>onceState = Running, flag = True, hist = []\<rparr>, ?p(0 := Dial))"
    using reachable.reach_step by (fastforce simp: defaultOfFirst_def)
  have "?S (\<lparr>onceState = Running, flag = True, hist = []\<rparr>, ?p(0 := Dial))
           (\<lparr>onceState = Running, flag = True, hist = []\<rparr>
              \<lparr>hist := hist \<lparr>onceState = Running, flag = True, hist = []\<rparr> @ [CallConnect []]\<rparr>,
            (?p(0 := Dial))(0 := Finish))"
    by (rule step.dial_error[where err = "''connection refused''"])
       (simp_all add: downController_def okController_def)
  with r2 have r3: "?R (\<lparr>onceState = Running, flag = True, hist = [CallConnect []]\<rparr>, ?p(0 := Finish))"
    using reachable.reach_step by fastforce
  have "?S (\<lparr>onceState = Running, flag = True, hist = [CallConnect []]\<rparr>, ?p(0 := Finish))
           (\<lparr>onceState = Running, flag = True, hist = [CallConnect []]\<rparr>\<lparr>onceState := Done\<rparr>,
            (?p(0 := Finish))(0 := ReadFlag))"
    by (rule step.finish) simp
  with r3 have r4: "?R (\<lparr>onceState = Done, flag = True, hist = [CallConnect []]\<rparr>, ?p(0 := ReadFlag))"
    using reachable.reach_step by fastforce
  let ?d = "\<lparr>onceState = Done, flag = True, hist = [CallConnect []]\<rparr>"
  have "?S (?d, ?p(0 := ReadFlag)) (?d, (?p(0 := ReadFlag))(0 := Returned (flag ?d)))"
    by (rule step.read_flag) simp
  with r4 have r5: "?R (?d, ?p(0 := Returned True))"
    using reachable.reach_step by fastforce
  have "?S (?d, ?p(0 := Returned True)) (?d, (?p(0 := Returned True))(1 := ReadFlag))"
    by (rule step.skip) simp_all
  with r5 have r6: "?R (?d, ?p(0 := Returned True, 1 := ReadFlag))"
    using reachable.reach_step by fastforce
  have "?S (?d, ?p(0 := Returned True, 1 := ReadFlag))
           (?d, (?p(0 := Returned True, 1 := ReadFlag))(1 := Returned (flag ?d)))"
    by (rule step.read_flag) simp
  with r6 have "?R (?d, ?p(0 := Returned True, 1 := Returned True))"
    using reachable.reach_step by fastforce
  then show ?thesis by (simp add: bothReturned_def)
qed

theorem IsJAAS_callers_agree_witness:
  "reachable downController defaultOfFirst bothReturned
 \<and> probes (hist (fst bothReturned)) \<le> 1
 \<and> snd bothReturned 0 = Returned True \<and> snd bothReturned 1 = Returned True
 \<and> defaultOfFirst 1 = False \<and> flag (fst bothReturned) = True"
proof -
  have r: "reachable downController defaultOfFirst
             (fst bothReturned, snd bothReturned)"
    using reachable_bothReturned by simp
  have p: "snd bothReturned 0 = Returned True" "snd bothReturned 1 = Returned True"
    by (simp_all add: bothReturned_def)
  show ?thesis
    using IsJAAS_callers_agree[OF r, of 0 True 1 True] p reachable_bothReturned
    by (simp add: defaultOfFirst_def)
qed

end
